theory Spec2Isabelle
  imports Complex_Main "HOL-Library.Multiset"
begin

section \<open>Data model (control.go, control\_gl.go)\<close>

text \<open>
  The two constant blocks of control.go. Go declares them as untyped integer constants
  (\<open>iota\<close>); only these values are ever stored, so each block is an enumeration.
\<close>

datatype game_state = GAME_NOT_RUNNING | GAME_RUNNING | GAME_FINISHED

datatype client_state =
  CLIENT_UNLOGGED | CLIENT_LOGGED | CLIENT_READY | CLIENT_THINKING | CLIENT_KICKED

text \<open>Game states, action lists and the like are opaque JSON values, forwarded verbatim.\<close>

type_synonym json = string

text \<open>A Go \<open>error\<close>: \<open>None\<close> is \<open>nil\<close>, \<open>Some e\<close> carries \<open>e.Error()\<close>.\<close>

type_synonym error = "string option"

text \<open>A Go channel value: \<open>chan_nil\<close> is the zero value, \<open>chan_make\<close> the result of \<open>make(chan T)\<close>.\<close>

datatype chan = chan_nil | chan_make

text \<open>\<open>*Client\<close>: clients are shared by pointer, so they live in a store indexed by address.\<close>

type_synonym ClientRef = nat

record MessageDoTurnPlayerAction =
  PlayerID :: int
  TurnNumber :: int
  Actions :: json

record PlayerInformation =
  InfoPlayerID :: int
  Nickname :: string
  RemoteAddress :: string
  IsConnected :: bool

text \<open>The messages the functions under study write on a socket (after \<open>json.Marshal\<close>).\<close>

datatype Message =
    MessageKick string
  | MessageLoginAck
  | MessageDoInit int int
  | MessageDoTurn "MessageDoTurnPlayerAction list"

record MessageGameStarts =
  GS_PlayerID :: int
  GS_PlayersInfo :: "PlayerInformation list"
  GS_NbPlayers :: int
  GS_NbTurnsMax :: int
  GS_DelayFirstTurn :: real
  GS_DelayTurns :: real
  GS_InitialGameState :: json

record MessageTurn =
  T_TurnNumber :: int
  T_GameState :: json
  T_PlayersInfo :: "PlayerInformation list"

record MessageGameEnds =
  E_WinnerPlayerID :: int
  E_GameState :: json

text \<open>
  The fields of \<open>Client\<close> that control.go and control\_gl.go use. The connection is reduced
  to its remote address and to the outcomes of the writes still to come on it
  (\<open>True\<close>: the write fails; an exhausted list: the write succeeds). The two channels
  \<open>incomingMessages\<close> and \<open>canTerminate\<close> are inputs and appear as events below.
\<close>

record Client =
  remoteAddr :: string
  writeErrs :: "bool list"
  nickname :: string
  state :: client_state

record GameLogicClient =
  gl_client :: ClientRef
  playerAction :: chan
  start :: chan
  playerDisconnected :: chan

text \<open>
  \<open>PlayerOrVisuClient\<close>. Its three channels are created by the only constructor calls
  (in \<open>handleClient\<close>); what is sent on them is recorded in the trace.
\<close>

record PlayerOrVisuClient =
  pv_client :: ClientRef
  playerID :: int
  isPlayer :: bool
  playerInfo :: "PlayerInformation option"

text \<open>
  \<open>GlobalState\<close>. \<open>Mutex\<close> holds whether the mutex is locked. \<open>Fast\<close> is read by
  control\_gl.go. Go's \<open>int\<close> is 64 bits wide; the only arithmetic on these fields is
  \<open>turnNumber + 1\<close> below \<open>NbTurnsMax\<close> and slice lengths, which cannot overflow, so
  \<open>int\<close> is exact.
\<close>

record GlobalState =
  Mutex :: bool
  GameState :: game_state
  GameLogic :: "GameLogicClient list"
  Players :: "PlayerOrVisuClient list"
  Visus :: "PlayerOrVisuClient list"
  NbPlayersMax :: int
  NbVisusMax :: int
  NbTurnsMax :: int
  MillisecondsBeforeFirstTurn :: real
  MillisecondsBetweenTurns :: real
  Fast :: bool

text \<open>
  What the code does to the outside, in order: mutex operations, successful socket
  writes, values sent on the channels of players and visualizations (named by their
  client), and values sent on the exit channel. These channels are unbuffered; a send is
  recorded when it is made, the receiving goroutine being taken to wait for it.
\<close>

datatype Action =
    ALock
  | AUnlock
  | AWrite ClientRef Message
  | AGameStarts ClientRef MessageGameStarts
  | ANewTurn ClientRef MessageTurn
  | AGameEnds ClientRef MessageGameEnds
  | AExit int

record World =
  clients :: "ClientRef \<Rightarrow> Client"
  globalState :: GlobalState
  trace :: "Action list"

section \<open>Sending and kicking (control.go)\<close>

text \<open>
  Modelled from the spec: \<open>sendMessage\<close> (client.go is not among the sources) writes one
  framed message on the client's socket and returns the transport error, if any.
\<close>

definition sendMessage :: "ClientRef \<Rightarrow> Message \<Rightarrow> World \<Rightarrow> error \<times> World" where
  "sendMessage c m w =
     (case writeErrs (clients w c) of
        [] \<Rightarrow> (None, w\<lparr>trace := trace w @ [AWrite c m]\<rparr>)
      | failed # rest \<Rightarrow>
          (let w' = w\<lparr>clients := (clients w)(c := (clients w c)\<lparr>writeErrs := rest\<rparr>)\<rparr>
           in if failed then (Some ''write error'', w')
              else (None, w'\<lparr>trace := trace w' @ [AWrite c m]\<rparr>)))"

text \<open>
  \<open>Kick\<close>. \<open>json.Marshal\<close> of a \<open>MessageKick\<close> cannot fail, so the send is always
  attempted; its result is dropped. \<open>time.Sleep\<close> only delays the caller.
\<close>

definition Kick :: "ClientRef \<Rightarrow> string \<Rightarrow> World \<Rightarrow> World" where
  "Kick c reason w =
     (if state (clients w c) = CLIENT_KICKED then w
      else
        (let w1 = w\<lparr>clients := (clients w)(c := (clients w c)\<lparr>state := CLIENT_KICKED\<rparr>)\<rparr>
         in snd (sendMessage c (MessageKick reason) w1)))"

definition sendLoginACK :: "ClientRef \<Rightarrow> World \<Rightarrow> error \<times> World" where
  "sendLoginACK c w = sendMessage c MessageLoginAck w"

section \<open>Collecting player actions (control\_gl.go, handleGameLogic, lines 181--200)\<close>

text \<open>The \<open>range\<close> loop stops at the first entry of the arriving action's player.\<close>

fun findAction :: "int \<Rightarrow> MessageDoTurnPlayerAction list \<Rightarrow> nat option" where
  "findAction pid [] = None"
| "findAction pid (act # acts) =
     (if PlayerID act = pid then Some 0 else map_option Suc (findAction pid acts))"

text \<open>
  The body of the \<open>case action := <-glClient.playerAction\<close> branch up to the append. The
  parallel assignment reads both entries before it writes them.
\<close>

definition collectAction ::
  "MessageDoTurnPlayerAction \<Rightarrow> MessageDoTurnPlayerAction list \<Rightarrow> MessageDoTurnPlayerAction list" where
  "collectAction action playerActions =
     (case findAction (PlayerID action) playerActions of
        None \<Rightarrow> playerActions @ [action]
      | Some actionIndex \<Rightarrow>
          (let lastIndex = length playerActions - 1;
               atIndex = playerActions ! actionIndex;
               atLast = playerActions ! lastIndex;
               swapped = (playerActions[lastIndex := atIndex])[actionIndex := atLast]
           in swapped[lastIndex := action]))"

section \<open>Incoming messages\<close>

text \<open>
  What \<open>readClientMessages\<close> queues on \<open>incomingMessages\<close>: a decoded JSON object or the
  read error. The decoded object is kept as the fields the readers below look at.
\<close>

datatype Content =
    ContentLogin string string
  | ContentTurnAck int json
  | ContentDoInitAck json
  | ContentDoTurnAck int json
  | ContentOther json

record ClientMessage =
  content :: Content
  err :: error

record MessageLogin =
  L_nickname :: string
  L_role :: string

record MessageDoInitAck =
  InitialGameState :: json

record MessageDoTurnAck =
  WinnerPlayerID :: int
  Ack_GameState :: json

definition nicknameChar :: "char \<Rightarrow> bool" where
  "nicknameChar ch =
     (ch \<in> set ''abcdefghijklmnopqrstuvwxyzABCDEFGHIJKLMNOPQRSTUVWXYZ0123456789_-'')"

text \<open>
  Modelled from the spec: \<open>readLoginMessage\<close> (the message readers are not among the
  sources) accepts a LOGIN whose nickname matches \<open>^[a-zA-Z0-9_-]{1,10}$\<close> and whose role
  is one of the three known roles.
\<close>

definition readLoginMessage :: "Content \<Rightarrow> string + MessageLogin" where
  "readLoginMessage c =
     (case c of
        ContentLogin nick role \<Rightarrow>
          (if 1 \<le> length nick \<and> length nick \<le> 10 \<and> list_all nicknameChar nick
              \<and> (role = ''player'' \<or> role = ''visualization'' \<or> role = ''game logic'')
           then Inr \<lparr>L_nickname = nick, L_role = role\<rparr>
           else Inl ''invalid LOGIN'')
      | _ \<Rightarrow> Inl ''not a LOGIN'')"

text \<open>Modelled from the spec: \<open>readDoInitAckMessage\<close> accepts a DO\_INIT\_ACK only.\<close>

definition readDoInitAckMessage :: "Content \<Rightarrow> string + MessageDoInitAck" where
  "readDoInitAckMessage c =
     (case c of
        ContentDoInitAck st \<Rightarrow> Inr \<lparr>InitialGameState = st\<rparr>
      | _ \<Rightarrow> Inl ''not a DO_INIT_ACK'')"

text \<open>
  Modelled from the spec: \<open>readDoTurnAckMessage\<close> accepts a DO\_TURN\_ACK whose
  \<open>winner_player_id\<close> is at least \<open>-1\<close> and below the initial number of players.
\<close>

definition readDoTurnAckMessage :: "Content \<Rightarrow> int \<Rightarrow> string + MessageDoTurnAck" where
  "readDoTurnAckMessage c nbPlayers =
     (case c of
        ContentDoTurnAck winner st \<Rightarrow>
          (if - 1 \<le> winner \<and> winner < nbPlayers
           then Inr \<lparr>WinnerPlayerID = winner, Ack_GameState = st\<rparr>
           else Inl ''invalid winner_player_id'')
      | _ \<Rightarrow> Inl ''not a DO_TURN_ACK'')"

section \<open>The mutex\<close>

text \<open>
  Modelled from the spec: \<open>LockGlobalStateMutex\<close> and \<open>UnlockGlobalStateMutex\<close> (not among
  the sources) acquire and release \<open>GlobalState.Mutex\<close>, as \<open>Mutex.Lock()\<close> and
  \<open>Mutex.Unlock()\<close> do in control.go. A goroutine that finds the mutex locked cannot
  proceed: \<open>None\<close>.
\<close>

definition emit :: "Action list \<Rightarrow> World \<Rightarrow> World" where
  "emit as w = w\<lparr>trace := trace w @ as\<rparr>"

definition LockGlobalStateMutex :: "World \<Rightarrow> World option" where
  "LockGlobalStateMutex w =
     (if Mutex (globalState w) then None
      else Some (emit [ALock] (w\<lparr>globalState := (globalState w)\<lparr>Mutex := True\<rparr>\<rparr>)))"

definition UnlockGlobalStateMutex :: "World \<Rightarrow> World" where
  "UnlockGlobalStateMutex w =
     emit [AUnlock] (w\<lparr>globalState := (globalState w)\<lparr>Mutex := False\<rparr>\<rparr>)"

section \<open>The login dispatcher (control.go, handleClient)\<close>

text \<open>Where \<open>handleClient\<close> ends: it returns, or it calls the handler of the accepted client.\<close>

datatype Handler =
    NoHandler
  | PlayerOrVisuHandler PlayerOrVisuClient
  | GameLogicHandler GameLogicClient

text \<open>\<open>case "player"\<close>, entered with the mutex held.\<close>

definition loginPlayer :: "ClientRef \<Rightarrow> World \<Rightarrow> Handler \<times> World" where
  "loginPlayer client w =
     (if GameState (globalState w) \<noteq> GAME_NOT_RUNNING then
        (NoHandler, Kick client ''LOGIN denied: Game has been started'' (UnlockGlobalStateMutex w))
      else if int (length (Players (globalState w))) \<ge> NbPlayersMax (globalState w) then
        (NoHandler,
         Kick client ''LOGIN denied: Maximum number of players reached'' (UnlockGlobalStateMutex w))
      else
        (case sendLoginACK client w of
           (Some e, w') \<Rightarrow>
             (NoHandler,
              Kick client ''LOGIN denied: Could not send LOGIN_ACK'' (UnlockGlobalStateMutex w'))
         | (None, w') \<Rightarrow>
             (let pvClient = \<lparr>pv_client = client, playerID = - 1, isPlayer = True,
                              playerInfo = None\<rparr>;
                  gs = globalState w'
              in (PlayerOrVisuHandler pvClient,
                  UnlockGlobalStateMutex
                    (w'\<lparr>globalState := gs\<lparr>Players := Players gs @ [pvClient]\<rparr>\<rparr>)))))"

text \<open>\<open>case "visualization"\<close>, entered with the mutex held.\<close>

definition loginVisualization :: "ClientRef \<Rightarrow> World \<Rightarrow> Handler \<times> World" where
  "loginVisualization client w =
     (if int (length (Visus (globalState w))) \<ge> NbVisusMax (globalState w) then
        (NoHandler,
         Kick client ''LOGIN denied: Maximum number of visus reached'' (UnlockGlobalStateMutex w))
      else
        (case sendLoginACK client w of
           (Some e, w') \<Rightarrow>
             (NoHandler,
              Kick client ''LOGIN denied: Could not send LOGIN_ACK'' (UnlockGlobalStateMutex w'))
         | (None, w') \<Rightarrow>
             (let pvClient = \<lparr>pv_client = client, playerID = - 1, isPlayer = False,
                              playerInfo = None\<rparr>;
                  gs = globalState w'
              in (PlayerOrVisuHandler pvClient,
                  UnlockGlobalStateMutex
                    (w'\<lparr>globalState := gs\<lparr>Visus := Visus gs @ [pvClient]\<rparr>\<rparr>)))))"

text \<open>\<open>case "game logic"\<close>, entered with the mutex held. \<open>playerDisconnected\<close> is not set.\<close>

definition loginGameLogic :: "ClientRef \<Rightarrow> World \<Rightarrow> Handler \<times> World" where
  "loginGameLogic client w =
     (if GameState (globalState w) \<noteq> GAME_NOT_RUNNING then
        (NoHandler, Kick client ''LOGIN denied: Game has been started'' (UnlockGlobalStateMutex w))
      else if length (GameLogic (globalState w)) \<ge> 1 then
        (NoHandler,
         Kick client ''LOGIN denied: A game logic is already logged in'' (UnlockGlobalStateMutex w))
      else
        (case sendLoginACK client w of
           (Some e, w') \<Rightarrow>
             (NoHandler,
              Kick client ''LOGIN denied: Could not send LOGIN_ACK'' (UnlockGlobalStateMutex w'))
         | (None, w') \<Rightarrow>
             (let glc = \<lparr>gl_client = client, playerAction = chan_make, start = chan_make,
                         playerDisconnected = chan_nil\<rparr>;
                  gs = globalState w'
              in (GameLogicHandler glc,
                  UnlockGlobalStateMutex
                    (w'\<lparr>globalState := gs\<lparr>GameLogic := GameLogic gs @ [glc]\<rparr>\<rparr>)))))"

text \<open>
  \<open>handleClient\<close>, from the first message of the connection to the call of the role's
  handler. The \<open>switch\<close> has no default: with any other role the function returns with the
  mutex still locked (\<open>readLoginMessage\<close> lets no such role through).
\<close>

definition handleClient :: "ClientRef \<Rightarrow> ClientMessage \<Rightarrow> World \<Rightarrow> (Handler \<times> World) option" where
  "handleClient client msg w =
     (case err msg of
        Some e \<Rightarrow> Some (NoHandler, Kick client (''Invalid first message: '' @ e) w)
      | None \<Rightarrow>
          (case readLoginMessage (content msg) of
             Inl e \<Rightarrow> Some (NoHandler, Kick client (''Invalid first message: '' @ e) w)
           | Inr loginMessage \<Rightarrow>
               (let w1 = w\<lparr>clients := (clients w)
                             (client := (clients w client)\<lparr>nickname := L_nickname loginMessage\<rparr>)\<rparr>
                in case LockGlobalStateMutex w1 of
                     None \<Rightarrow> None
                   | Some w2 \<Rightarrow>
                       (if L_role loginMessage = ''player'' then Some (loginPlayer client w2)
                        else if L_role loginMessage = ''visualization''
                          then Some (loginVisualization client w2)
                        else if L_role loginMessage = ''game logic''
                          then Some (loginGameLogic client w2)
                        else Some (NoHandler, w2)))))"

section \<open>The turn coordinator (control\_gl.go, handleGameLogic)\<close>

text \<open>
  \<open>handleGameLogic\<close> is an event loop: it blocks in a \<open>select\<close>, handles what it receives
  and blocks again. Its program points are the three \<open>select\<close> statements, the loop of
  \<open>waitGameLogicFinition\<close>, the return, a send that can never complete, and a panic.
\<close>

datatype gl_pc = AwaitStart | AwaitDoInitAck | TurnLoop | Finition | Blocked | Panicked | Returned

text \<open>
  The local variables. \<open>sendDoTurnToGL\<close> is the number of values in the channel of
  capacity 1; \<open>timers\<close> counts the goroutines started at line 271 that have not sent yet.
\<close>

record GLLocals =
  glClient :: GameLogicClient
  pc :: gl_pc
  initialNbPlayers :: int
  playersInfo :: "PlayerInformation list"
  turnNumber :: int
  playerActions :: "MessageDoTurnPlayerAction list"
  sendDoTurnToGL :: nat
  timers :: nat

text \<open>
  What a \<open>select\<close> can receive. \<open>EvStart\<close> carries the slice that \<open>rand.Perm\<close> returns in
  the step it starts; \<open>EvTimeAfter\<close> the duration of the timer that fires, in nanoseconds;
  \<open>EvTimerSend\<close> is the send of a goroutine started at line 271.
\<close>

datatype Event =
    EvStart "int list"
  | EvCanTerminate
  | EvIncoming ClientMessage
  | EvTimeAfter int
  | EvSendDoTurnToGL
  | EvPlayerAction MessageDoTurnPlayerAction
  | EvPlayerDisconnected
  | EvTimerSend

definition Second :: int where
  "Second = 1000000000"

text \<open>\<open>rand.Perm(n)\<close> (math/rand) returns a permutation of the integers \<open>[0, n)\<close>.\<close>

definition randPerm :: "nat \<Rightarrow> int list \<Rightarrow> bool" where
  "randPerm n playerIDs = (sort playerIDs = map int [0..<n])"

definition sendDoInit :: "GameLogicClient \<Rightarrow> int \<Rightarrow> int \<Rightarrow> World \<Rightarrow> error \<times> World" where
  "sendDoInit client nbPlayers nbTurnsMax w =
     sendMessage (gl_client client) (MessageDoInit nbPlayers nbTurnsMax) w"

definition sendDoTurn ::
  "GameLogicClient \<Rightarrow> MessageDoTurnPlayerAction list \<Rightarrow> World \<Rightarrow> error \<times> World" where
  "sendDoTurn client acts w = sendMessage (gl_client client) (MessageDoTurn acts) w"

text \<open>The error exit used throughout: \<open>Kick\<close>, \<open>onexit <- 1\<close>, \<open>waitGameLogicFinition\<close>.\<close>

definition failGameLogic :: "string \<Rightarrow> GLLocals \<Rightarrow> World \<Rightarrow> GLLocals \<times> World" where
  "failGameLogic reason l w =
     (l\<lparr>pc := Finition\<rparr>, emit [AExit 1] (Kick (gl_client (glClient l)) reason w))"

text \<open>Lines 61--66: the identifiers are assigned in the order of \<open>Players\<close>.\<close>

definition assignPlayerIDs :: "int list \<Rightarrow> PlayerOrVisuClient list \<Rightarrow> PlayerOrVisuClient list" where
  "assignPlayerIDs playerIDs players =
     map (\<lambda>(player, pid). player\<lparr>playerID := pid\<rparr>) (zip players playerIDs)"

text \<open>Lines 71--76.\<close>

definition playerInformation :: "World \<Rightarrow> PlayerOrVisuClient \<Rightarrow> PlayerInformation" where
  "playerInformation w player =
     \<lparr>InfoPlayerID = playerID player,
      Nickname = nickname (clients w (pv_client player)),
      RemoteAddress = remoteAddr (clients w (pv_client player)),
      IsConnected = True\<rparr>"

text \<open>
  Lines 60--97, on receiving from \<open>start\<close>. \<open>sort.Slice\<close> orders by \<open>PlayerID\<close>; the keys
  are distinct, so the order of the result does not depend on the sorting algorithm.
\<close>

definition startGame :: "int list \<Rightarrow> GLLocals \<Rightarrow> World \<Rightarrow> (GLLocals \<times> World) option" where
  "startGame playerIDs l w =
     (case LockGlobalStateMutex w of
        None \<Rightarrow> None
      | Some w1 \<Rightarrow>
          (let n = length (Players (globalState w1)) in
           if \<not> randPerm n playerIDs then None
           else
             (let players1 = assignPlayerIDs playerIDs (Players (globalState w1));
                  infos = map (playerInformation w1) players1;
                  players2 = map (\<lambda>player. player\<lparr>playerInfo := Some (playerInformation w1 player)\<rparr>)
                               players1;
                  w2 = w1\<lparr>globalState := (globalState w1)\<lparr>Players := players2\<rparr>\<rparr>;
                  l1 = l\<lparr>initialNbPlayers := int n, playersInfo := sort_key InfoPlayerID infos\<rparr>
              in case sendDoInit (glClient l) (int (length (Players (globalState w2))))
                        (NbTurnsMax (globalState w2)) w2 of
                   (Some e, w3) \<Rightarrow>
                     Some (failGameLogic (''Cannot send DO_INIT. '' @ e) l1 (UnlockGlobalStateMutex w3))
                 | (None, w3) \<Rightarrow> Some (l1\<lparr>pc := AwaitDoInitAck\<rparr>, UnlockGlobalStateMutex w3))))"

text \<open>The first \<open>select\<close> (lines 39--58).\<close>

definition stepAwaitStart :: "Event \<Rightarrow> GLLocals \<Rightarrow> World \<Rightarrow> (GLLocals \<times> World) option" where
  "stepAwaitStart ev l w =
     (case ev of
        EvStart playerIDs \<Rightarrow> (if start (glClient l) = chan_nil then None else startGame playerIDs l w)
      | EvCanTerminate \<Rightarrow> Some (l\<lparr>pc := Returned\<rparr>, w)
      | EvIncoming msg \<Rightarrow>
          (case LockGlobalStateMutex w of
             None \<Rightarrow> None
           | Some w1 \<Rightarrow>
               (let w2 = (case err msg of
                            None \<Rightarrow> Kick (gl_client (glClient l))
                                      ''Received a game logic message but the game has not started'' w1
                          | Some e \<Rightarrow> Kick (gl_client (glClient l)) (''Game logic error. '' @ e) w1);
                    w3 = w2\<lparr>globalState := (globalState w2)\<lparr>GameLogic := []\<rparr>\<rparr>
                in Some (l\<lparr>pc := Finition\<rparr>, emit [AExit 1] (UnlockGlobalStateMutex w3))))
      | _ \<Rightarrow> None)"

definition gameStartsFor ::
  "GlobalState \<Rightarrow> GLLocals \<Rightarrow> MessageDoInitAck \<Rightarrow> PlayerInformation list \<Rightarrow> PlayerOrVisuClient
     \<Rightarrow> Action" where
  "gameStartsFor gs l ack infos pv =
     AGameStarts (pv_client pv)
       \<lparr>GS_PlayerID = playerID pv, GS_PlayersInfo = infos,
        GS_NbPlayers = initialNbPlayers l, GS_NbTurnsMax = NbTurnsMax gs,
        GS_DelayFirstTurn = MillisecondsBeforeFirstTurn gs,
        GS_DelayTurns = MillisecondsBetweenTurns gs,
        GS_InitialGameState = InitialGameState ack\<rparr>"

text \<open>
  Lines 128--170: GAME\_STARTS to the players, then to the visualizations, and the first
  DO\_TURN, whose result is dropped.
\<close>

definition sendGameStarts :: "MessageDoInitAck \<Rightarrow> GLLocals \<Rightarrow> World \<Rightarrow> (GLLocals \<times> World) option" where
  "sendGameStarts ack l w =
     (case LockGlobalStateMutex w of
        None \<Rightarrow> None
      | Some w1 \<Rightarrow>
          (let gs = globalState w1;
               w2 = emit (map (gameStartsFor gs l ack []) (Players gs)
                          @ map (gameStartsFor gs l ack (playersInfo l)) (Visus gs)) w1;
               w3 = UnlockGlobalStateMutex w2;
               l1 = l\<lparr>turnNumber := 0, playerActions := [], sendDoTurnToGL := 0\<rparr>
           in Some (l1\<lparr>pc := TurnLoop\<rparr>, snd (sendDoTurn (glClient l1) (playerActions l1) w3))))"

text \<open>The second \<open>select\<close> (lines 99--126) and what follows it.\<close>

definition stepAwaitDoInitAck :: "Event \<Rightarrow> GLLocals \<Rightarrow> World \<Rightarrow> (GLLocals \<times> World) option" where
  "stepAwaitDoInitAck ev l w =
     (case ev of
        EvCanTerminate \<Rightarrow> Some (l\<lparr>pc := Returned\<rparr>, w)
      | EvIncoming msg \<Rightarrow>
          (case err msg of
             Some e \<Rightarrow> Some (failGameLogic (''Cannot read DO_INIT_ACK. '' @ e) l w)
           | None \<Rightarrow>
               (case readDoInitAckMessage (content msg) of
                  Inl e \<Rightarrow> Some (failGameLogic (''Invalid DO_INIT_ACK message. '' @ e) l w)
                | Inr ack \<Rightarrow> sendGameStarts ack l w))
      | EvTimeAfter d \<Rightarrow>
          (if d = 3 * Second
           then Some (failGameLogic ''Did not receive DO_INIT_ACK after 3 seconds.'' l w)
           else None)
      | _ \<Rightarrow> None)"

text \<open>
  \<open>sendDoTurnToGL <- 1\<close> in the coordinator itself: with the buffer full the send never
  completes, since only the coordinator receives from this channel.
\<close>

definition postSendDoTurn :: "GLLocals \<Rightarrow> GLLocals" where
  "postSendDoTurn l =
     (if sendDoTurnToGL l \<ge> 1 then l\<lparr>pc := Blocked\<rparr> else l\<lparr>sendDoTurnToGL := 1\<rparr>)"

text \<open>
  Lines 202--209 and 211--218: in fast mode, under the mutex, trigger a DO\_TURN when
  there are as many collected actions as players.
\<close>

definition checkPlayerCount :: "GLLocals \<Rightarrow> World \<Rightarrow> (GLLocals \<times> World) option" where
  "checkPlayerCount l w =
     (if Fast (globalState w) then
        (case LockGlobalStateMutex w of
           None \<Rightarrow> None
         | Some w1 \<Rightarrow>
             (let l1 = (if length (playerActions l) = length (Players (globalState w1))
                        then postSendDoTurn l else l)
              in if pc l1 = Blocked then Some (l1, w1)
                 else Some (l1, UnlockGlobalStateMutex w1)))
      else Some (l, w))"

definition turnFor :: "int \<Rightarrow> MessageDoTurnAck \<Rightarrow> PlayerInformation list \<Rightarrow> PlayerOrVisuClient \<Rightarrow> Action" where
  "turnFor n ack infos pv =
     ANewTurn (pv_client pv)
       \<lparr>T_TurnNumber = n, T_GameState = Ack_GameState ack, T_PlayersInfo = infos\<rparr>"

definition gameEndsFor :: "MessageDoTurnAck \<Rightarrow> PlayerOrVisuClient \<Rightarrow> Action" where
  "gameEndsFor ack pv =
     AGameEnds (pv_client pv)
       \<lparr>E_WinnerPlayerID = WinnerPlayerID ack, E_GameState = Ack_GameState ack\<rparr>"

text \<open>Lines 241--316: a valid DO\_TURN\_ACK has been read.\<close>

definition handleDoTurnAck :: "MessageDoTurnAck \<Rightarrow> GLLocals \<Rightarrow> World \<Rightarrow> (GLLocals \<times> World) option" where
  "handleDoTurnAck ack l w =
     (let l1 = l\<lparr>turnNumber := turnNumber l + 1\<rparr> in
      if turnNumber l1 < NbTurnsMax (globalState w) then
        (case LockGlobalStateMutex w of
           None \<Rightarrow> None
         | Some w1 \<Rightarrow>
             (let gs = globalState w1;
                  w2 = emit (map (turnFor (turnNumber l1 - 1) ack []) (Players gs)
                             @ map (turnFor (turnNumber l1 - 1) ack (playersInfo l1)) (Visus gs)) w1;
                  l2 = (if Fast gs \<and> length (playerActions l1) = 0 then postSendDoTurn l1 else l1)
              in if pc l2 = Blocked then Some (l2, w2)
                 else if \<not> Fast gs
                   then Some (l2\<lparr>timers := timers l2 + 1\<rparr>, UnlockGlobalStateMutex w2)
                 else Some (l2, UnlockGlobalStateMutex w2)))
      else if WinnerPlayerID ack \<noteq> - 1
              \<and> \<not> (0 \<le> WinnerPlayerID ack \<and> WinnerPlayerID ack < int (length (playersInfo l1)))
        then Some (l1\<lparr>pc := Panicked\<rparr>, w)
      else
        (case LockGlobalStateMutex w of
           None \<Rightarrow> None
         | Some w1 \<Rightarrow>
             (let gs = globalState w1;
                  w2 = emit (map (gameEndsFor ack) (Players gs) @ map (gameEndsFor ack) (Visus gs)) w1;
                  w3 = Kick (gl_client (glClient l1)) ''Game is finished'' (UnlockGlobalStateMutex w2)
              in Some (l1\<lparr>pc := Finition\<rparr>, emit [AExit 0] w3))))"

text \<open>The \<open>select\<close> of the turn loop (lines 172--318).\<close>

definition stepTurnLoop :: "Event \<Rightarrow> GLLocals \<Rightarrow> World \<Rightarrow> (GLLocals \<times> World) option" where
  "stepTurnLoop ev l w =
     (case ev of
        EvCanTerminate \<Rightarrow> Some (l\<lparr>pc := Returned\<rparr>, w)
      | EvSendDoTurnToGL \<Rightarrow>
          (if sendDoTurnToGL l = 0 then None
           else Some (l\<lparr>sendDoTurnToGL := sendDoTurnToGL l - 1, playerActions := []\<rparr>,
                      snd (sendDoTurn (glClient l) (playerActions l) w)))
      | EvPlayerAction action \<Rightarrow>
          (if playerAction (glClient l) = chan_nil then None
           else checkPlayerCount (l\<lparr>playerActions := collectAction action (playerActions l)\<rparr>) w)
      | EvPlayerDisconnected \<Rightarrow>
          (if playerDisconnected (glClient l) = chan_nil then None else checkPlayerCount l w)
      | EvIncoming msg \<Rightarrow>
          (case err msg of
             Some e \<Rightarrow> Some (failGameLogic (''Cannot read DO_TURN_ACK. '' @ e) l w)
           | None \<Rightarrow>
               (case readDoTurnAckMessage (content msg) (initialNbPlayers l) of
                  Inl e \<Rightarrow> Some (failGameLogic (''Invalid DO_TURN_ACK message. '' @ e) l w)
                | Inr ack \<Rightarrow> handleDoTurnAck ack l w))
      | _ \<Rightarrow> None)"

text \<open>\<open>waitGameLogicFinition\<close>: everything is dropped until \<open>canTerminate\<close>.\<close>

definition waitGameLogicFinition :: "Event \<Rightarrow> GLLocals \<Rightarrow> World \<Rightarrow> (GLLocals \<times> World) option" where
  "waitGameLogicFinition ev l w =
     (case ev of
        EvCanTerminate \<Rightarrow> Some (l\<lparr>pc := Returned\<rparr>, w)
      | EvPlayerAction action \<Rightarrow> (if playerAction (glClient l) = chan_nil then None else Some (l, w))
      | EvPlayerDisconnected \<Rightarrow>
          (if playerDisconnected (glClient l) = chan_nil then None else Some (l, w))
      | EvIncoming msg \<Rightarrow> Some (l, w)
      | _ \<Rightarrow> None)"

text \<open>
  One step of \<open>handleGameLogic\<close>: the event is received and handled up to the next
  \<open>select\<close>. \<open>None\<close>: the event cannot be received at this program point, or the handling
  needs the mutex while it is locked. The goroutines of line 271 send when the buffer
  has room, whatever the coordinator is doing.
\<close>

definition handleGameLogic_step :: "Event \<Rightarrow> GLLocals \<times> World \<Rightarrow> (GLLocals \<times> World) option" where
  "handleGameLogic_step ev lw =
     (case lw of (l, w) \<Rightarrow>
        if ev = EvTimerSend then
          (if timers l > 0 \<and> sendDoTurnToGL l = 0
           then Some (l\<lparr>timers := timers l - 1, sendDoTurnToGL := 1\<rparr>, w) else None)
        else
          (case pc l of
             AwaitStart \<Rightarrow> stepAwaitStart ev l w
           | AwaitDoInitAck \<Rightarrow> stepAwaitDoInitAck ev l w
           | TurnLoop \<Rightarrow> stepTurnLoop ev l w
           | Finition \<Rightarrow> waitGameLogicFinition ev l w
           | Blocked \<Rightarrow> None
           | Panicked \<Rightarrow> None
           | Returned \<Rightarrow> None))"


text \<open>The locals on entry of \<open>handleGameLogic\<close>.\<close>

definition handleGameLogic_entry :: "GameLogicClient \<Rightarrow> GLLocals" where
  "handleGameLogic_entry glc =
     \<lparr>glClient = glc, pc = AwaitStart, initialNbPlayers = 0, playersInfo = [], turnNumber = 0,
      playerActions = [], sendDoTurnToGL = 0, timers = 0\<rparr>"

section \<open>The whole server\<close>

text \<open>
  The shared world and the locals of every running \<open>handleGameLogic\<close>, in the order in
  which they were started.
\<close>

record System =
  world :: World
  handlers :: "GLLocals list"

text \<open>
  Modelled from the spec: \<open>SetGameState\<close>. No function of control.go or control\_gl.go
  assigns \<open>GameState\<close>; the spec has it go from NOT\_RUNNING to RUNNING when the game
  starts and to FINISHED when it ends, so the phase may be written (with the mutex free)
  between any two steps of the functions above.
\<close>

datatype SysEvent =
    Connection ClientRef ClientMessage
  | GameLogicEvent nat Event
  | SetGameState game_state

definition sys_step :: "SysEvent \<Rightarrow> System \<Rightarrow> System option" where
  "sys_step e s =
     (case e of
        Connection client msg \<Rightarrow>
          (case handleClient client msg (world s) of
             None \<Rightarrow> None
           | Some (h, w') \<Rightarrow>
               Some \<lparr>world = w',
                     handlers = (case h of
                                   GameLogicHandler glc \<Rightarrow> handlers s @ [handleGameLogic_entry glc]
                                 | _ \<Rightarrow> handlers s)\<rparr>)
      | GameLogicEvent i ev \<Rightarrow>
          (if i < length (handlers s) then
             (case handleGameLogic_step ev (handlers s ! i, world s) of
                None \<Rightarrow> None
              | Some (l', w') \<Rightarrow> Some \<lparr>world = w', handlers = (handlers s)[i := l']\<rparr>)
           else None)
      | SetGameState phase \<Rightarrow>
          (if Mutex (globalState (world s)) then None
           else Some (s\<lparr>world := (world s)\<lparr>globalState :=
                          (globalState (world s))\<lparr>GameState := phase\<rparr>\<rparr>\<rparr>)))"

fun sys_run :: "SysEvent list \<Rightarrow> System \<Rightarrow> System option" where
  "sys_run [] s = Some s"
| "sys_run (e # es) s = (case sys_step e s of None \<Rightarrow> None | Some s' \<Rightarrow> sys_run es s')"

text \<open>
  The server before the first connection: nobody registered, the game not running (the
  zero value of \<open>GameState\<close>), the mutex free, no coordinator started.
\<close>

definition initial :: "System \<Rightarrow> bool" where
  "initial s =
     (GameState (globalState (world s)) = GAME_NOT_RUNNING
      \<and> GameLogic (globalState (world s)) = []
      \<and> Players (globalState (world s)) = []
      \<and> Visus (globalState (world s)) = []
      \<and> \<not> Mutex (globalState (world s))
      \<and> trace (world s) = []
      \<and> handlers s = [])"

section \<open>Observing the trace; schedules of a game\<close>

text \<open>The messages written on the socket of one client, in order.\<close>

fun writesTo :: "ClientRef \<Rightarrow> Action list \<Rightarrow> Message list" where
  "writesTo c [] = []"
| "writesTo c (AWrite c' m # as) = (if c' = c then m # writesTo c as else writesTo c as)"
| "writesTo c (_ # as) = writesTo c as"

text \<open>The values sent on the exit channel, in order.\<close>

fun exits :: "Action list \<Rightarrow> int list" where
  "exits [] = []"
| "exits (AExit n # as) = n # exits as"
| "exits (_ # as) = exits as"

text \<open>What was sent to players and visualizations on their channels, in order.\<close>

fun fanOut :: "Action list \<Rightarrow> Action list" where
  "fanOut [] = []"
| "fanOut (AGameStarts c m # as) = AGameStarts c m # fanOut as"
| "fanOut (ANewTurn c m # as) = ANewTurn c m # fanOut as"
| "fanOut (AGameEnds c m # as) = AGameEnds c m # fanOut as"
| "fanOut (_ # as) = fanOut as"

text \<open>What \<open>playerActions\<close> holds after the actions \<open>as\<close> arrived one by one.\<close>

definition collectActions ::
  "MessageDoTurnPlayerAction list \<Rightarrow> MessageDoTurnPlayerAction list
     \<Rightarrow> MessageDoTurnPlayerAction list" where
  "collectActions pas as = foldl (\<lambda>pas' a. collectAction a pas') pas as"


definition doTurnAckMsg :: "int \<Rightarrow> json \<Rightarrow> ClientMessage" where
  "doTurnAckMsg winner st = \<lparr>content = ContentDoTurnAck winner st, err = None\<rparr>"

text \<open>
  One turn as the coordinator sees it when the game logic answers each DO\_TURN once:
  player actions arrive, the DO\_TURN\_ACK arrives, more actions arrive, the signal to
  send the next DO\_TURN is posted (by the timer goroutine, or in fast mode by the
  coordinator itself while it handles the DO\_TURN\_ACK), more actions arrive, and the
  coordinator receives the signal.
\<close>

record Round =
  r_before :: "MessageDoTurnPlayerAction list"
  r_winner :: int
  r_state :: json
  r_waiting :: "MessageDoTurnPlayerAction list"
  r_after :: "MessageDoTurnPlayerAction list"




definition turnsOf :: "GlobalState \<Rightarrow> GLLocals \<Rightarrow> nat \<times> Round \<Rightarrow> Action list" where
  "turnsOf gs l kr =
     map (turnFor (int (fst kr)) \<lparr>WinnerPlayerID = r_winner (snd kr), Ack_GameState = r_state (snd kr)\<rparr> [])
       (Players gs)
     @ map (turnFor (int (fst kr)) \<lparr>WinnerPlayerID = r_winner (snd kr), Ack_GameState = r_state (snd kr)\<rparr>
             (playersInfo l)) (Visus gs)"

section \<open>Auxiliary definitions for the proofs\<close>

text \<open>What a step of the coordinator keeps of the global state.\<close>

definition keeps :: "World \<Rightarrow> World \<Rightarrow> bool" where
  "keeps w w' =
     (GameState (globalState w') = GameState (globalState w)
      \<and> (GameLogic (globalState w') = GameLogic (globalState w) \<or> GameLogic (globalState w') = [])
      \<and> Visus (globalState w') = Visus (globalState w)
      \<and> length (Players (globalState w')) = length (Players (globalState w))
      \<and> NbTurnsMax (globalState w') = NbTurnsMax (globalState w)
      \<and> NbPlayersMax (globalState w') = NbPlayersMax (globalState w)
      \<and> NbVisusMax (globalState w') = NbVisusMax (globalState w)
      \<and> Fast (globalState w') = Fast (globalState w))"

text \<open>The invariant of the server: at most one registered game logic, and no coordinator
  whose \<open>playerDisconnected\<close> channel was ever created.\<close>

definition sys_inv :: "System \<Rightarrow> bool" where
  "sys_inv s = (length (GameLogic (globalState (world s))) \<le> 1
      \<and> (\<forall>l\<in>set (handlers s). playerDisconnected (glClient l) = chan_nil))"

text \<open>The coordinator can write to the game logic and take the mutex.\<close>

definition ready :: "ClientRef \<Rightarrow> World \<Rightarrow> bool" where
  "ready c w = (\<not> Mutex (globalState w) \<and> writeErrs (clients w c) = [])"






section \<open>Concrete inputs\<close>

text \<open>A fresh connection, a configuration, and the server before the first connection.\<close>

definition client0 :: Client where
  "client0 = \<lparr>remoteAddr = ''127.0.0.1:50000'', writeErrs = [], nickname = [],
              state = CLIENT_UNLOGGED\<rparr>"

definition config0 :: GlobalState where
  "config0 = \<lparr>Mutex = False, GameState = GAME_NOT_RUNNING, GameLogic = [], Players = [],
              Visus = [], NbPlayersMax = 4, NbVisusMax = 1, NbTurnsMax = 2,
              MillisecondsBeforeFirstTurn = 1000, MillisecondsBetweenTurns = 1000,
              Fast = False\<rparr>"

definition world0 :: World where
  "world0 = \<lparr>clients = (\<lambda>c. client0), globalState = config0, trace = []\<rparr>"

definition sys0 :: System where
  "sys0 = \<lparr>world = world0, handlers = []\<rparr>"

definition loginMsg :: "string \<Rightarrow> string \<Rightarrow> ClientMessage" where
  "loginMsg nick role = \<lparr>content = ContentLogin nick role, err = None\<rparr>"

text \<open>A game logic client as \<open>handleClient\<close> builds it, and a world with it and two players registered.\<close>

definition glc0 :: GameLogicClient where
  "glc0 = \<lparr>gl_client = 0, playerAction = chan_make, start = chan_make,
           playerDisconnected = chan_nil\<rparr>"

definition world2 :: World where
  "world2 = world0\<lparr>globalState := config0\<lparr>GameLogic := [glc0],
       Players := [\<lparr>pv_client = 1, playerID = - 1, isPlayer = True, playerInfo = None\<rparr>,
                   \<lparr>pv_client = 2, playerID = - 1, isPlayer = True, playerInfo = None\<rparr>]\<rparr>\<rparr>"



section \<open>Unfolding on concrete inputs\<close>

lemmas eval_defs = sys_step_def handleClient_def readLoginMessage_def nicknameChar_def
  LockGlobalStateMutex_def UnlockGlobalStateMutex_def loginGameLogic_def loginPlayer_def
  loginVisualization_def sendLoginACK_def sendMessage_def emit_def Kick_def
  handleGameLogic_entry_def Let_def loginMsg_def sys0_def world0_def client0_def config0_def
  initial_def

lemmas step_defs = handleGameLogic_step_def stepAwaitStart_def stepAwaitDoInitAck_def
  stepTurnLoop_def waitGameLogicFinition_def startGame_def sendGameStarts_def
  handleDoTurnAck_def checkPlayerCount_def postSendDoTurn_def failGameLogic_def
  sendDoInit_def sendDoTurn_def assignPlayerIDs_def playerInformation_def randPerm_def
  gameStartsFor_def turnFor_def gameEndsFor_def readDoInitAckMessage_def
  readDoTurnAckMessage_def collectAction_def Second_def glc0_def world2_def

section \<open>Properties of the action collection\<close>









section \<open>Basic facts about sending, kicking and the mutex\<close>

lemma emit_simps [simp]:
  "globalState (emit as w) = globalState w"
  "clients (emit as w) = clients w"
  "trace (emit as w) = trace w @ as"
  by (simp_all add: emit_def)

lemma sendMessage_globalState [simp]: "globalState (snd (sendMessage c m w)) = globalState w"
  by (simp add: sendMessage_def Let_def split: list.splits)

lemma sendMessage_state [simp]: "state (clients (snd (sendMessage c m w)) c') = state (clients w c')"
  by (simp add: sendMessage_def Let_def split: list.splits)

lemma sendMessage_nickname [simp]:
  "nickname (clients (snd (sendMessage c m w)) c') = nickname (clients w c')"
  by (simp add: sendMessage_def Let_def split: list.splits)

lemma sendMessage_remoteAddr [simp]:
  "remoteAddr (clients (snd (sendMessage c m w)) c') = remoteAddr (clients w c')"
  by (simp add: sendMessage_def Let_def split: list.splits)

lemma sendMessage_ok_trace:
  "sendMessage c m w = (None, w') \<Longrightarrow> trace w' = trace w @ [AWrite c m]"
  by (auto simp add: sendMessage_def Let_def split: list.splits if_splits)

lemma sendMessage_err_trace:
  "sendMessage c m w = (Some e, w') \<Longrightarrow> trace w' = trace w"
  by (auto simp add: sendMessage_def Let_def split: list.splits if_splits)

lemma Kick_globalState [simp]: "globalState (Kick c r w) = globalState w"
  by (simp add: Kick_def Let_def)

lemma Kick_state [simp]: "state (clients (Kick c r w) c) = CLIENT_KICKED"
  by (simp add: Kick_def Let_def)

lemma Kick_state_other: "c' \<noteq> c \<Longrightarrow> state (clients (Kick c r w) c') = state (clients w c')"
  by (simp add: Kick_def Let_def)

lemma Kick_kicked: "state (clients w c) = CLIENT_KICKED \<Longrightarrow> Kick c r w = w"
  by (simp add: Kick_def)

text \<open>
  C9. \<open>Kick\<close> on a client that is already KICKED returns the world unchanged (no state
  change, nothing written). On any other client the KICK message is sent from a world in
  which the client's state is already KICKED. After a \<open>Kick\<close> the client is KICKED, so a
  second \<open>Kick\<close>, with any reason, changes nothing.
\<close>

theorem Kick_idempotent:
  "(state (clients w c) = CLIENT_KICKED \<longrightarrow> Kick c reason w = w)
   \<and> (state (clients w c) \<noteq> CLIENT_KICKED \<longrightarrow>
        Kick c reason w =
          snd (sendMessage c (MessageKick reason)
                 (w\<lparr>clients := (clients w)(c := (clients w c)\<lparr>state := CLIENT_KICKED\<rparr>)\<rparr>)))
   \<and> state (clients (Kick c reason w) c) = CLIENT_KICKED
   \<and> Kick c reason' (Kick c reason w) = Kick c reason w"
  by (simp add: Kick_kicked) (simp add: Kick_def)

theorem Kick_idempotent_witness:
  "state (clients (Kick 0 ''first'' world0) 0) = CLIENT_KICKED
   \<and> Kick 0 ''second'' (Kick 0 ''first'' world0) = Kick 0 ''first'' world0
   \<and> state (clients world0 0) \<noteq> CLIENT_KICKED
   \<and> trace (Kick 0 ''first'' world0) = [AWrite 0 (MessageKick ''first'')]
   \<and> trace (Kick 0 ''second'' (Kick 0 ''first'' world0)) = [AWrite 0 (MessageKick ''first'')]"
  using Kick_idempotent[of "Kick 0 ''first'' world0" 0 "''second''" "''x''"]
        Kick_idempotent[of world0 0 "''first''" "''x''"]
  by (simp add: world0_def client0_def sendMessage_def)

lemma Lock_Some:
  "LockGlobalStateMutex w = Some w' \<Longrightarrow>
     \<not> Mutex (globalState w) \<and> clients w' = clients w \<and> trace w' = trace w @ [ALock]
     \<and> globalState w' = (globalState w)\<lparr>Mutex := True\<rparr>"
  by (auto simp add: LockGlobalStateMutex_def split: if_splits)

lemma Lock_free: "\<not> Mutex (globalState w) \<Longrightarrow> \<exists>w'. LockGlobalStateMutex w = Some w'"
  by (simp add: LockGlobalStateMutex_def)

lemma Unlock_simps [simp]:
  "clients (UnlockGlobalStateMutex w) = clients w"
  "trace (UnlockGlobalStateMutex w) = trace w @ [AUnlock]"
  "globalState (UnlockGlobalStateMutex w) = (globalState w)\<lparr>Mutex := False\<rparr>"
  by (simp_all add: UnlockGlobalStateMutex_def)

lemma handleClient_role:
  assumes "err msg = None" "readLoginMessage (content msg) = Inr login"
    and "LockGlobalStateMutex
           (w\<lparr>clients := (clients w)(c := (clients w c)\<lparr>nickname := L_nickname login\<rparr>)\<rparr>) = Some w2"
  shows "handleClient c msg w =
     (if L_role login = ''player'' then Some (loginPlayer c w2)
      else if L_role login = ''visualization'' then Some (loginVisualization c w2)
      else if L_role login = ''game logic'' then Some (loginGameLogic c w2)
      else Some (NoHandler, w2))"
  using assms by (simp add: handleClient_def Let_def)

lemma sendLoginACK_cases:
  obtains (ok) w3 where "sendLoginACK c w = (None, w3)" "trace w3 = trace w @ [AWrite c MessageLoginAck]"
      "globalState w3 = globalState w" "state (clients w3 c) = state (clients w c)"
  | (failed) e w3 where "sendLoginACK c w = (Some e, w3)" "trace w3 = trace w"
      "globalState w3 = globalState w" "state (clients w3 c) = state (clients w c)"
proof (cases "sendLoginACK c w")
  case (Pair r w3)
  have g: "globalState w3 = globalState w" "state (clients w3 c) = state (clients w c)"
    using Pair sendMessage_globalState[of c MessageLoginAck w] sendMessage_state[of c MessageLoginAck w c]
    by (simp_all add: sendLoginACK_def)
  show ?thesis
  proof (cases r)
    case None
    with Pair g show ?thesis using ok sendMessage_ok_trace[of c MessageLoginAck w w3]
      by (simp add: sendLoginACK_def)
  next
    case (Some e)
    with Pair g show ?thesis using failed sendMessage_err_trace[of c MessageLoginAck w e w3]
      by (simp add: sendLoginACK_def)
  qed
qed

text \<open>
  C5. A valid LOGIN with role "player", handled with the mutex free: if the game state is
  not GAME\_NOT\_RUNNING the client is kicked with "LOGIN denied: Game has been started";
  if it is and the players are at their maximum, with "LOGIN denied: Maximum number of
  players reached"; otherwise LOGIN\_ACK is sent and, if the send fails, the client is
  kicked with "LOGIN denied: Could not send LOGIN\_ACK", else it is appended to
  \<open>Players\<close>, the write of LOGIN\_ACK lying between the lock and the unlock. Whenever no
  handler is entered, \<open>Players\<close> is unchanged and the client is KICKED.
\<close>

theorem handleClient_player:
  assumes login: "err msg = None" "readLoginMessage (content msg) = Inr login"
      "L_role login = ''player''"
    and lock: "LockGlobalStateMutex
           (w\<lparr>clients := (clients w)(c := (clients w c)\<lparr>nickname := L_nickname login\<rparr>)\<rparr>) = Some w2"
  shows
   "(GameState (globalState w) \<noteq> GAME_NOT_RUNNING \<longrightarrow>
       handleClient c msg w =
         Some (NoHandler,
               Kick c ''LOGIN denied: Game has been started'' (UnlockGlobalStateMutex w2)))
    \<and> (GameState (globalState w) = GAME_NOT_RUNNING
         \<and> int (length (Players (globalState w))) \<ge> NbPlayersMax (globalState w) \<longrightarrow>
       handleClient c msg w =
         Some (NoHandler,
               Kick c ''LOGIN denied: Maximum number of players reached''
                 (UnlockGlobalStateMutex w2)))
    \<and> (GameState (globalState w) = GAME_NOT_RUNNING
         \<and> int (length (Players (globalState w))) < NbPlayersMax (globalState w) \<longrightarrow>
         (\<forall>e w3. sendLoginACK c w2 = (Some e, w3) \<longrightarrow>
            handleClient c msg w =
              Some (NoHandler,
                    Kick c ''LOGIN denied: Could not send LOGIN_ACK'' (UnlockGlobalStateMutex w3)))
         \<and> (\<forall>w3. sendLoginACK c w2 = (None, w3) \<longrightarrow>
              (\<exists>w'. handleClient c msg w =
                 Some (PlayerOrVisuHandler
                         \<lparr>pv_client = c, playerID = - 1, isPlayer = True, playerInfo = None\<rparr>, w')
               \<and> Players (globalState w') = Players (globalState w) @
                    [\<lparr>pv_client = c, playerID = - 1, isPlayer = True, playerInfo = None\<rparr>]
               \<and> trace w' = trace w @ [ALock, AWrite c MessageLoginAck, AUnlock]
               \<and> state (clients w' c) = state (clients w c))))
    \<and> (\<forall>w'. handleClient c msg w = Some (NoHandler, w') \<longrightarrow>
          Players (globalState w') = Players (globalState w)
          \<and> state (clients w' c) = CLIENT_KICKED)"
proof -
  note L = Lock_Some[OF lock]
  have hc: "handleClient c msg w = Some (loginPlayer c w2)"
    using handleClient_role[OF login(1,2) lock] login(3) by simp
  have gs: "GameState (globalState w2) = GameState (globalState w)"
    "Players (globalState w2) = Players (globalState w)"
    "NbPlayersMax (globalState w2) = NbPlayersMax (globalState w)"
    using L by simp_all
  have st: "state (clients w2 c) = state (clients w c)" using L by simp
  have tr: "trace w2 = trace w @ [ALock]" using L by simp
  show ?thesis
  proof (cases rule: sendLoginACK_cases[of c w2])
    case (ok w3)
    then show ?thesis using hc gs st tr
      by (simp add: loginPlayer_def Let_def)
  next
    case (failed e w3)
    then show ?thesis using hc gs st tr
      by (simp add: loginPlayer_def Let_def)
  qed
qed

theorem handleClient_player_witness:
  "map_option (trace \<circ> snd) (handleClient 0 (loginMsg ''alice'' ''player'') world0)
     = Some [ALock, AWrite 0 MessageLoginAck, AUnlock]
   \<and> map_option (map pv_client \<circ> Players \<circ> globalState \<circ> snd)
        (handleClient 0 (loginMsg ''alice'' ''player'') world0) = Some [0]
   \<and> map_option (trace \<circ> snd)
        (handleClient 0 (loginMsg ''alice'' ''player'')
           (world0\<lparr>globalState := config0\<lparr>GameState := GAME_RUNNING\<rparr>\<rparr>))
     = Some [ALock, AUnlock, AWrite 0 (MessageKick ''LOGIN denied: Game has been started'')]
   \<and> map_option (trace \<circ> snd)
        (handleClient 0 (loginMsg ''alice'' ''player'')
           (world0\<lparr>globalState := config0\<lparr>NbPlayersMax := 0\<rparr>\<rparr>))
     = Some [ALock, AUnlock,
             AWrite 0 (MessageKick ''LOGIN denied: Maximum number of players reached'')]
   \<and> map_option (trace \<circ> snd)
        (handleClient 0 (loginMsg ''alice'' ''player'')
           (world0\<lparr>clients := (\<lambda>c. client0\<lparr>writeErrs := [True]\<rparr>)\<rparr>))
     = Some [ALock, AUnlock, AWrite 0 (MessageKick ''LOGIN denied: Could not send LOGIN_ACK'')]"
proof -
  have a: "err (loginMsg ''alice'' ''player'') = None" by (simp add: loginMsg_def)
  have b: "readLoginMessage (content (loginMsg ''alice'' ''player''))
       = Inr \<lparr>L_nickname = ''alice'', L_role = ''player''\<rparr>" by (simp add: eval_defs)
  have c: "L_role \<lparr>L_nickname = ''alice'', L_role = ''player''\<rparr> = ''player''" by simp
  have l: "\<not> Mutex (globalState w) \<Longrightarrow>
      LockGlobalStateMutex (w\<lparr>clients := (clients w)(0 := (clients w 0)\<lparr>nickname :=
            L_nickname \<lparr>L_nickname = ''alice'', L_role = ''player''\<rparr>\<rparr>)\<rparr>)
      = Some (emit [ALock] (w\<lparr>clients := (clients w)(0 := (clients w 0)\<lparr>nickname := ''alice''\<rparr>),
                 globalState := (globalState w)\<lparr>Mutex := True\<rparr>\<rparr>))" for w
    by (simp add: LockGlobalStateMutex_def)
  have m: "\<not> Mutex (globalState world0)"
    "\<not> Mutex (globalState (world0\<lparr>globalState := config0\<lparr>GameState := GAME_RUNNING\<rparr>\<rparr>))"
    "\<not> Mutex (globalState (world0\<lparr>globalState := config0\<lparr>NbPlayersMax := 0\<rparr>\<rparr>))"
    "\<not> Mutex (globalState (world0\<lparr>clients := (\<lambda>c. client0\<lparr>writeErrs := [True]\<rparr>)\<rparr>))"
    by (simp_all add: world0_def config0_def)
  note ev = world0_def config0_def client0_def sendLoginACK_def sendMessage_def emit_def
      Kick_def UnlockGlobalStateMutex_def Let_def
  note T1 = handleClient_player[OF a b c l[OF m(1)]]
  note T2 = handleClient_player[OF a b c l[OF m(2)]]
  note T3 = handleClient_player[OF a b c l[OF m(3)]]
  note T4 = handleClient_player[OF a b c l[OF m(4)]]
  have p1: "GameState (globalState world0) = GAME_NOT_RUNNING
      \<and> int (length (Players (globalState world0))) < NbPlayersMax (globalState world0)"
    by (simp add: world0_def config0_def)
  have s1: "sendLoginACK 0 (emit [ALock]
         (world0\<lparr>clients := (clients world0)(0 := (clients world0 0)\<lparr>nickname := ''alice''\<rparr>),
                 globalState := (globalState world0)\<lparr>Mutex := True\<rparr>\<rparr>))
      = (None, emit [ALock, AWrite 0 MessageLoginAck]
         (world0\<lparr>clients := (clients world0)(0 := (clients world0 0)\<lparr>nickname := ''alice''\<rparr>),
                 globalState := (globalState world0)\<lparr>Mutex := True\<rparr>\<rparr>))"
    by (simp add: ev)
  from T1[THEN conjunct2, THEN conjunct2, THEN conjunct1, rule_format, OF p1,
          THEN conjunct2, rule_format, OF s1]
  obtain w' where r1: "handleClient 0 (loginMsg ''alice'' ''player'') world0 =
      Some (PlayerOrVisuHandler \<lparr>pv_client = 0, playerID = - 1, isPlayer = True, playerInfo = None\<rparr>, w')"
    and r1p: "Players (globalState w') = Players (globalState world0) @
                    [\<lparr>pv_client = 0, playerID = - 1, isPlayer = True, playerInfo = None\<rparr>]"
    and r1t: "trace w' = trace world0 @ [ALock, AWrite 0 MessageLoginAck, AUnlock]"
    by (elim exE conjE)
  have c1: "map_option (trace \<circ> snd) (handleClient 0 (loginMsg ''alice'' ''player'') world0)
     = Some [ALock, AWrite 0 MessageLoginAck, AUnlock]"
    unfolding r1 using r1t by (simp add: world0_def)
  have c2: "map_option (map pv_client \<circ> Players \<circ> globalState \<circ> snd)
        (handleClient 0 (loginMsg ''alice'' ''player'') world0) = Some [0]"
    unfolding r1 using r1p by (simp add: world0_def config0_def)
  have p2: "GameState (globalState (world0\<lparr>globalState := config0\<lparr>GameState := GAME_RUNNING\<rparr>\<rparr>))
      \<noteq> GAME_NOT_RUNNING" by simp
  have c3: "map_option (trace \<circ> snd)
        (handleClient 0 (loginMsg ''alice'' ''player'')
           (world0\<lparr>globalState := config0\<lparr>GameState := GAME_RUNNING\<rparr>\<rparr>))
     = Some [ALock, AUnlock, AWrite 0 (MessageKick ''LOGIN denied: Game has been started'')]"
    unfolding T2[THEN conjunct1, rule_format, OF p2] by (simp add: ev)
  have p3: "GameState (globalState (world0\<lparr>globalState := config0\<lparr>NbPlayersMax := 0\<rparr>\<rparr>))
        = GAME_NOT_RUNNING
      \<and> NbPlayersMax (globalState (world0\<lparr>globalState := config0\<lparr>NbPlayersMax := 0\<rparr>\<rparr>))
        \<le> int (length (Players (globalState (world0\<lparr>globalState := config0\<lparr>NbPlayersMax := 0\<rparr>\<rparr>))))"
    by (simp add: config0_def)
  have c4: "map_option (trace \<circ> snd)
        (handleClient 0 (loginMsg ''alice'' ''player'')
           (world0\<lparr>globalState := config0\<lparr>NbPlayersMax := 0\<rparr>\<rparr>))
     = Some [ALock, AUnlock,
             AWrite 0 (MessageKick ''LOGIN denied: Maximum number of players reached'')]"
    unfolding T3[THEN conjunct2, THEN conjunct1, rule_format, OF p3] by (simp add: ev)
  let ?wf = "world0\<lparr>clients := (\<lambda>c. client0\<lparr>writeErrs := [True]\<rparr>)\<rparr>"
  have p4: "GameState (globalState ?wf) = GAME_NOT_RUNNING
      \<and> int (length (Players (globalState ?wf))) < NbPlayersMax (globalState ?wf)"
    by (simp add: world0_def config0_def)
  have s4: "sendLoginACK 0 (emit [ALock]
         (?wf\<lparr>clients := (clients ?wf)(0 := (clients ?wf 0)\<lparr>nickname := ''alice''\<rparr>),
                 globalState := (globalState ?wf)\<lparr>Mutex := True\<rparr>\<rparr>))
      = (Some ''write error'', emit [ALock]
         (?wf\<lparr>clients := (clients ?wf)(0 := (clients ?wf 0)\<lparr>nickname := ''alice'', writeErrs := []\<rparr>),
                 globalState := (globalState ?wf)\<lparr>Mutex := True\<rparr>\<rparr>))"
    by (simp add: ev)
  have c5: "map_option (trace \<circ> snd) (handleClient 0 (loginMsg ''alice'' ''player'') ?wf)
     = Some [ALock, AUnlock, AWrite 0 (MessageKick ''LOGIN denied: Could not send LOGIN_ACK'')]"
    unfolding T4[THEN conjunct2, THEN conjunct2, THEN conjunct1, rule_format, OF p4,
          THEN conjunct1, rule_format, OF s4] by (simp add: ev)
  show ?thesis using c1 c2 c3 c4 c5 by (intro conjI)
qed

section \<open>What the coordinator keeps\<close>

lemma failGameLogic_simps [simp]:
  "globalState (snd (failGameLogic r l w)) = globalState w"
  "glClient (fst (failGameLogic r l w)) = glClient l"
  "pc (fst (failGameLogic r l w)) = Finition"
  "trace (snd (failGameLogic r l w)) = trace (Kick (gl_client (glClient l)) r w) @ [AExit 1]"
  "state (clients (snd (failGameLogic r l w)) (gl_client (glClient l))) = CLIENT_KICKED"
  by (simp_all add: failGameLogic_def)

lemma postSendDoTurn_glClient [simp]: "glClient (postSendDoTurn l) = glClient l"
  by (simp add: postSendDoTurn_def)

lemma randPerm_length: "randPerm n ids \<Longrightarrow> length ids = n"
  by (metis randPerm_def length_map length_sort length_upt diff_zero)

lemma sendMessage_eqD:
  "sendMessage c m w = (r, w') \<Longrightarrow>
     globalState w' = globalState w
     \<and> trace w' = trace w @ (if r = None then [AWrite c m] else [])
     \<and> (\<forall>c'. state (clients w' c') = state (clients w c')
             \<and> nickname (clients w' c') = nickname (clients w c')
             \<and> remoteAddr (clients w' c') = remoteAddr (clients w c'))"
  by (auto simp add: sendMessage_def Let_def split: list.splits if_splits)

lemma failGameLogic_eqD:
  "failGameLogic r l w = (l', w') \<Longrightarrow>
     globalState w' = globalState w \<and> l' = l\<lparr>pc := Finition\<rparr>"
  by (auto simp add: failGameLogic_def)

lemma startGame_frame:
  "startGame ids l w = Some (l', w') \<Longrightarrow> keeps w w' \<and> glClient l' = glClient l"
  unfolding startGame_def keeps_def
  by (auto simp add: Let_def sendDoInit_def assignPlayerIDs_def randPerm_length
        dest!: Lock_Some sendMessage_eqD failGameLogic_eqD split: option.splits if_splits prod.splits)

lemma stepAwaitStart_frame:
  "stepAwaitStart ev l w = Some (l', w') \<Longrightarrow> keeps w w' \<and> glClient l' = glClient l"
  unfolding stepAwaitStart_def
  by (cases ev) (auto simp add: Let_def keeps_def dest!: Lock_Some
      dest: startGame_frame split: option.splits if_splits)

lemma sendGameStarts_frame:
  "sendGameStarts ack l w = Some (l', w') \<Longrightarrow> keeps w w' \<and> glClient l' = glClient l"
  unfolding sendGameStarts_def
  by (auto simp add: Let_def keeps_def sendDoTurn_def dest!: Lock_Some split: option.splits)

lemma stepAwaitDoInitAck_frame:
  "stepAwaitDoInitAck ev l w = Some (l', w') \<Longrightarrow> keeps w w' \<and> glClient l' = glClient l"
  unfolding stepAwaitDoInitAck_def
  by (cases ev) (auto simp add: keeps_def dest: sendGameStarts_frame dest!: failGameLogic_eqD
      split: option.splits sum.splits if_splits)

lemma checkPlayerCount_frame:
  "checkPlayerCount l w = Some (l', w') \<Longrightarrow> keeps w w' \<and> glClient l' = glClient l"
  unfolding checkPlayerCount_def
  by (auto simp add: Let_def keeps_def dest!: Lock_Some split: option.splits if_splits)

lemma handleDoTurnAck_frame:
  "handleDoTurnAck ack l w = Some (l', w') \<Longrightarrow> keeps w w' \<and> glClient l' = glClient l"
  unfolding handleDoTurnAck_def
  by (auto simp add: Let_def keeps_def dest!: Lock_Some split: option.splits if_splits)

lemma stepTurnLoop_frame:
  "stepTurnLoop ev l w = Some (l', w') \<Longrightarrow> keeps w w' \<and> glClient l' = glClient l"
  unfolding stepTurnLoop_def
  by (cases ev) (auto simp add: keeps_def sendDoTurn_def
      dest: checkPlayerCount_frame handleDoTurnAck_frame dest!: failGameLogic_eqD
      split: option.splits sum.splits if_splits)

lemma waitGameLogicFinition_frame:
  "waitGameLogicFinition ev l w = Some (l', w') \<Longrightarrow> w' = w \<and> glClient l' = glClient l"
  unfolding waitGameLogicFinition_def
  by (cases ev) (auto split: if_splits)

lemma keeps_refl [simp]: "keeps w w"
  by (simp add: keeps_def)

lemma handleGameLogic_step_frame:
  "handleGameLogic_step ev (l, w) = Some (l', w') \<Longrightarrow> keeps w w' \<and> glClient l' = glClient l"
  unfolding handleGameLogic_step_def
  by (auto split: if_splits gl_pc.splits
      dest: stepAwaitStart_frame stepAwaitDoInitAck_frame stepTurnLoop_frame
            waitGameLogicFinition_frame)

section \<open>The invariant of the server\<close>

lemma handleClient_globalState:
  assumes "handleClient c msg w = Some (h, w')"
  shows "GameState (globalState w') = GameState (globalState w)
     \<and> (case h of
           GameLogicHandler glc \<Rightarrow>
             GameLogic (globalState w) = [] \<and> GameLogic (globalState w') = [glc]
             \<and> playerDisconnected glc = chan_nil \<and> playerAction glc = chan_make
             \<and> start glc = chan_make \<and> gl_client glc = c
         | _ \<Rightarrow> GameLogic (globalState w') = GameLogic (globalState w))"
proof (cases "err msg")
  case (Some e)
  with assms show ?thesis by (auto simp add: handleClient_def)
next
  case None
  show ?thesis
  proof (cases "readLoginMessage (content msg)")
    case (Inl e)
    with assms None show ?thesis by (auto simp add: handleClient_def)
  next
    case (Inr login)
    from assms None Inr obtain wl where
      lock: "LockGlobalStateMutex
           (w\<lparr>clients := (clients w)(c := (clients w c)\<lparr>nickname := L_nickname login\<rparr>)\<rparr>) = Some wl"
      by (auto simp add: handleClient_def Let_def split: option.splits)
    note L = Lock_Some[OF lock]
    note R = handleClient_role[OF None Inr lock]
    have gs: "globalState wl = (globalState w)\<lparr>Mutex := True\<rparr>" using L by simp
    show ?thesis
    proof (cases rule: sendLoginACK_cases[of c wl])
      case (ok ws)
      then show ?thesis using assms R gs
        by (auto simp add: loginPlayer_def loginVisualization_def loginGameLogic_def Let_def
              not_le split: if_splits)
    next
      case (failed e ws)
      then show ?thesis using assms R gs
        by (auto simp add: loginPlayer_def loginVisualization_def loginGameLogic_def Let_def
              split: if_splits)
    qed
  qed
qed

lemma sys_step_inv:
  assumes "sys_inv s" "sys_step e s = Some s'"
  shows "sys_inv s'"
proof (cases e)
  case (Connection c msg)
  with assms(2) obtain h w' where hc: "handleClient c msg (world s) = Some (h, w')"
    and s': "s' = \<lparr>world = w', handlers = (case h of
                                   GameLogicHandler glc \<Rightarrow> handlers s @ [handleGameLogic_entry glc]
                                 | _ \<Rightarrow> handlers s)\<rparr>"
    by (auto simp add: sys_step_def split: option.splits)
  from handleClient_globalState[OF hc] assms(1) show ?thesis
    by (cases h) (auto simp add: s' sys_inv_def handleGameLogic_entry_def)
next
  case (GameLogicEvent i ev)
  with assms(2) obtain l' w' where i: "i < length (handlers s)"
    and st: "handleGameLogic_step ev (handlers s ! i, world s) = Some (l', w')"
    and s': "s' = \<lparr>world = w', handlers = (handlers s)[i := l']\<rparr>"
    by (auto simp add: sys_step_def split: option.splits if_splits)
  from handleGameLogic_step_frame[OF st]
  have k: "keeps (world s) w'" and g: "glClient l' = glClient (handlers s ! i)" by simp_all
  have "length (GameLogic (globalState w')) \<le> 1"
    using k assms(1) by (auto simp add: keeps_def sys_inv_def)
  moreover have "\<forall>l\<in>set ((handlers s)[i := l']). playerDisconnected (glClient l) = chan_nil"
  proof
    fix l assume "l \<in> set ((handlers s)[i := l'])"
    then have "l = l' \<or> l \<in> set (handlers s)"
      using set_update_subset_insert by fastforce
    then show "playerDisconnected (glClient l) = chan_nil"
      using assms(1) g i by (auto simp add: sys_inv_def)
  qed
  ultimately show ?thesis by (simp add: s' sys_inv_def)
next
  case (SetGameState phase)
  with assms show ?thesis
    by (auto simp add: sys_step_def sys_inv_def split: if_splits)
qed

lemma sys_run_inv: "sys_inv s \<Longrightarrow> sys_run es s = Some s' \<Longrightarrow> sys_inv s'"
proof (induction es arbitrary: s)
  case Nil
  then show ?case by simp
next
  case (Cons e es)
  then show ?case by (auto split: option.splits dest: sys_step_inv)
qed

lemma initial_inv: "initial s \<Longrightarrow> sys_inv s"
  by (simp add: initial_def sys_inv_def)

lemma step_PlayerDisconnected_nil:
  "playerDisconnected (glClient l) = chan_nil \<Longrightarrow>
     handleGameLogic_step EvPlayerDisconnected (l, w) = None"
  by (simp add: handleGameLogic_step_def stepAwaitStart_def stepAwaitDoInitAck_def
        stepTurnLoop_def waitGameLogicFinition_def split: gl_pc.splits)

text \<open>
  C10. A game logic client accepted by \<open>handleClient\<close> has its \<open>playerAction\<close> and
  \<open>start\<close> channels created and its \<open>playerDisconnected\<close> channel nil. In every state
  the server reaches, every coordinator still has the nil channel, and receiving a player
  disconnection is not a possible step of it (at any program point).
\<close>

theorem playerDisconnected_never_received:
  "(\<forall>h w'. handleClient c msg w = Some (h, w') \<longrightarrow>
      (\<forall>glc. h = GameLogicHandler glc \<longrightarrow>
         playerAction glc = chan_make \<and> start glc = chan_make
         \<and> playerDisconnected glc = chan_nil))
   \<and> (initial s \<longrightarrow> sys_run es s = Some s' \<longrightarrow>
        (\<forall>i < length (handlers s').
           playerDisconnected (glClient (handlers s' ! i)) = chan_nil
           \<and> handleGameLogic_step EvPlayerDisconnected (handlers s' ! i, world s') = None
           \<and> sys_step (GameLogicEvent i EvPlayerDisconnected) s' = None))"
proof (intro conjI allI impI)
  fix h w' glc
  assume "handleClient c msg w = Some (h, w')" "h = GameLogicHandler glc"
  from handleClient_globalState[OF this(1)] this(2)
  show "playerAction glc = chan_make" "start glc = chan_make" "playerDisconnected glc = chan_nil"
    by simp_all
next
  fix i
  assume a: "initial s" "sys_run es s = Some s'" "i < length (handlers s')"
  from sys_run_inv[OF initial_inv[OF a(1)] a(2)] a(3)
  show n: "playerDisconnected (glClient (handlers s' ! i)) = chan_nil"
    by (simp add: sys_inv_def)
  then show d: "handleGameLogic_step EvPlayerDisconnected (handlers s' ! i, world s') = None"
    by (rule step_PlayerDisconnected_nil)
  then show "sys_step (GameLogicEvent i EvPlayerDisconnected) s' = None"
    by (simp add: sys_step_def)
qed

theorem playerDisconnected_never_received_witness:
  "initial sys0
   \<and> (\<exists>s'. sys_run [Connection 0 (loginMsg ''gl'' ''game logic'')] sys0 = Some s'
         \<and> length (handlers s') = 1
         \<and> GameLogic (globalState (world s')) =
             [\<lparr>gl_client = 0, playerAction = chan_make, start = chan_make,
               playerDisconnected = chan_nil\<rparr>]
         \<and> sys_step (GameLogicEvent 0 EvPlayerDisconnected) s' = None)"
proof -
  have i: "initial sys0" by (simp add: eval_defs)
  have "\<exists>s'. sys_run [Connection 0 (loginMsg ''gl'' ''game logic'')] sys0 = Some s'
         \<and> length (handlers s') = 1
         \<and> GameLogic (globalState (world s')) =
             [\<lparr>gl_client = 0, playerAction = chan_make, start = chan_make,
               playerDisconnected = chan_nil\<rparr>]"
    by (simp add: eval_defs)
  then obtain s' where r: "sys_run [Connection 0 (loginMsg ''gl'' ''game logic'')] sys0 = Some s'"
    and n: "length (handlers s') = 1"
    and g: "GameLogic (globalState (world s')) =
             [\<lparr>gl_client = 0, playerAction = chan_make, start = chan_make,
               playerDisconnected = chan_nil\<rparr>]" by blast
  from playerDisconnected_never_received[of 0 "loginMsg ''gl'' ''game logic''" world0 sys0
      "[Connection 0 (loginMsg ''gl'' ''game logic'')]" s'] i r n
  have "sys_step (GameLogicEvent 0 EvPlayerDisconnected) s' = None" by simp
  with i r n g show ?thesis by blast
qed

section \<open>Visualizations\<close>

text \<open>
  C7 (as amended). A valid LOGIN with role "visualization", handled with the mutex free,
  is decided by the cap and the send alone, whatever the game state: at the cap it is
  kicked; below the cap LOGIN\_ACK is sent and the client is appended to \<open>Visus\<close>, or
  kicked if the send fails.
\<close>

theorem handleClient_visualization:
  assumes login: "err msg = None" "readLoginMessage (content msg) = Inr login"
      "L_role login = ''visualization''"
    and lock: "LockGlobalStateMutex
           (w\<lparr>clients := (clients w)(c := (clients w c)\<lparr>nickname := L_nickname login\<rparr>)\<rparr>) = Some wl"
  shows
   "(int (length (Visus (globalState w))) \<ge> NbVisusMax (globalState w) \<longrightarrow>
       handleClient c msg w =
         Some (NoHandler,
               Kick c ''LOGIN denied: Maximum number of visus reached''
                 (UnlockGlobalStateMutex wl)))
    \<and> (int (length (Visus (globalState w))) < NbVisusMax (globalState w) \<longrightarrow>
         (\<forall>e ws. sendLoginACK c wl = (Some e, ws) \<longrightarrow>
            handleClient c msg w =
              Some (NoHandler,
                    Kick c ''LOGIN denied: Could not send LOGIN_ACK'' (UnlockGlobalStateMutex ws)))
         \<and> (\<forall>ws. sendLoginACK c wl = (None, ws) \<longrightarrow>
              (\<exists>w'. handleClient c msg w =
                 Some (PlayerOrVisuHandler
                         \<lparr>pv_client = c, playerID = - 1, isPlayer = False, playerInfo = None\<rparr>, w')
               \<and> Visus (globalState w') = Visus (globalState w) @
                    [\<lparr>pv_client = c, playerID = - 1, isPlayer = False, playerInfo = None\<rparr>]
               \<and> trace w' = trace w @ [ALock, AWrite c MessageLoginAck, AUnlock]
               \<and> state (clients w' c) = state (clients w c))))
    \<and> (\<forall>w'. handleClient c msg w = Some (NoHandler, w') \<longrightarrow>
          Visus (globalState w') = Visus (globalState w)
          \<and> state (clients w' c) = CLIENT_KICKED)"
proof -
  note L = Lock_Some[OF lock]
  have hc: "handleClient c msg w = Some (loginVisualization c wl)"
    using handleClient_role[OF login(1,2) lock] login(3) by simp
  have gs: "Visus (globalState wl) = Visus (globalState w)"
    "NbVisusMax (globalState wl) = NbVisusMax (globalState w)"
    using L by simp_all
  have st: "state (clients wl c) = state (clients w c)" using L by simp
  have tr: "trace wl = trace w @ [ALock]" using L by simp
  show ?thesis
  proof (cases rule: sendLoginACK_cases[of c wl])
    case (ok ws)
    then show ?thesis using hc gs st tr
      by (simp add: loginVisualization_def Let_def)
  next
    case (failed e ws)
    then show ?thesis using hc gs st tr
      by (simp add: loginVisualization_def Let_def)
  qed
qed

theorem handleClient_visualization_witness:
  "err (loginMsg ''viewer'' ''visualization'') = None
   \<and> readLoginMessage (content (loginMsg ''viewer'' ''visualization''))
       = Inr \<lparr>L_nickname = ''viewer'', L_role = ''visualization''\<rparr>
   \<and> (\<exists>wl. LockGlobalStateMutex
         (world0\<lparr>clients := (clients world0)(0 := (clients world0 0)\<lparr>nickname := ''viewer''\<rparr>)\<rparr>)
         = Some wl)
   \<and> (\<exists>w'. handleClient 0 (loginMsg ''viewer'' ''visualization'') world0 =
          Some (PlayerOrVisuHandler
                  \<lparr>pv_client = 0, playerID = - 1, isPlayer = False, playerInfo = None\<rparr>, w')
        \<and> trace w' = [ALock, AWrite 0 MessageLoginAck, AUnlock])"
proof -
  have a: "err (loginMsg ''viewer'' ''visualization'') = None" by (simp add: loginMsg_def)
  have b: "readLoginMessage (content (loginMsg ''viewer'' ''visualization''))
       = Inr \<lparr>L_nickname = ''viewer'', L_role = ''visualization''\<rparr>" by (simp add: eval_defs)
  have "\<exists>wl. LockGlobalStateMutex
         (world0\<lparr>clients := (clients world0)(0 := (clients world0 0)\<lparr>nickname :=
            L_nickname \<lparr>L_nickname = ''viewer'', L_role = ''visualization''\<rparr>\<rparr>)\<rparr>) = Some wl"
    by (simp add: eval_defs)
  then obtain wl where c: "LockGlobalStateMutex
         (world0\<lparr>clients := (clients world0)(0 := (clients world0 0)\<lparr>nickname :=
            L_nickname \<lparr>L_nickname = ''viewer'', L_role = ''visualization''\<rparr>\<rparr>)\<rparr>) = Some wl"
    by blast
  have d: "int (length (Visus (globalState world0))) < NbVisusMax (globalState world0)"
    by (simp add: eval_defs)
  have e: "\<exists>ws. sendLoginACK 0 wl = (None, ws)"
    using c by (auto simp add: eval_defs)
  from handleClient_visualization[OF a b _ c] d e
  have "\<exists>w'. handleClient 0 (loginMsg ''viewer'' ''visualization'') world0 =
          Some (PlayerOrVisuHandler
                  \<lparr>pv_client = 0, playerID = - 1, isPlayer = False, playerInfo = None\<rparr>, w')
        \<and> trace w' = trace world0 @ [ALock, AWrite 0 MessageLoginAck, AUnlock]"
    by auto
  then show ?thesis using a b c by (auto simp add: world0_def)
qed

text \<open>
  C7 as stated fails: with the game state GAME\_FINISHED and room below the cap, a
  visualization is still registered.
\<close>

theorem visualization_after_finished_counterexample:
  "GameState (globalState (world0\<lparr>globalState := config0\<lparr>GameState := GAME_FINISHED\<rparr>\<rparr>))
     = GAME_FINISHED
   \<and> map_option fst (handleClient 0 (loginMsg ''viewer'' ''visualization'')
        (world0\<lparr>globalState := config0\<lparr>GameState := GAME_FINISHED\<rparr>\<rparr>))
     = Some (PlayerOrVisuHandler
               \<lparr>pv_client = 0, playerID = - 1, isPlayer = False, playerInfo = None\<rparr>)
   \<and> map_option (Visus \<circ> globalState \<circ> snd) (handleClient 0 (loginMsg ''viewer'' ''visualization'')
        (world0\<lparr>globalState := config0\<lparr>GameState := GAME_FINISHED\<rparr>\<rparr>))
     = Some [\<lparr>pv_client = 0, playerID = - 1, isPlayer = False, playerInfo = None\<rparr>]
   \<and> map_option (trace \<circ> snd) (handleClient 0 (loginMsg ''viewer'' ''visualization'')
        (world0\<lparr>globalState := config0\<lparr>GameState := GAME_FINISHED\<rparr>\<rparr>))
     = Some [ALock, AWrite 0 MessageLoginAck, AUnlock]"
  by (simp add: eval_defs)

section \<open>At most one game logic; the game state\<close>

text \<open>
  C6 (as amended). In every state the server reaches, at most one game logic client is
  registered. A valid LOGIN with role "game logic" that arrives while one is registered
  enters no handler, leaves \<open>GameLogic\<close> unchanged and is kicked: with "LOGIN denied: A
  game logic is already logged in" while the game state is GAME\_NOT\_RUNNING, and with
  "LOGIN denied: Game has been started" otherwise.
\<close>

theorem gameLogic_at_most_one:
  "(initial s \<longrightarrow> sys_run es s = Some s' \<longrightarrow>
       length (GameLogic (globalState (world s'))) \<le> 1)
   \<and> (err msg = None \<longrightarrow> readLoginMessage (content msg) = Inr login \<longrightarrow>
        L_role login = ''game logic'' \<longrightarrow>
        LockGlobalStateMutex
           (w\<lparr>clients := (clients w)(c := (clients w c)\<lparr>nickname := L_nickname login\<rparr>)\<rparr>) = Some wl \<longrightarrow>
        length (GameLogic (globalState w)) \<ge> 1 \<longrightarrow>
          (GameState (globalState w) = GAME_NOT_RUNNING \<longrightarrow>
             handleClient c msg w =
               Some (NoHandler,
                     Kick c ''LOGIN denied: A game logic is already logged in''
                       (UnlockGlobalStateMutex wl)))
          \<and> (GameState (globalState w) \<noteq> GAME_NOT_RUNNING \<longrightarrow>
             handleClient c msg w =
               Some (NoHandler,
                     Kick c ''LOGIN denied: Game has been started'' (UnlockGlobalStateMutex wl)))
          \<and> (\<exists>w'. handleClient c msg w = Some (NoHandler, w')
                \<and> GameLogic (globalState w') = GameLogic (globalState w)
                \<and> state (clients w' c) = CLIENT_KICKED))"
proof (intro conjI impI)
  assume "initial s" "sys_run es s = Some s'"
  from sys_run_inv[OF initial_inv[OF this(1)] this(2)]
  show "length (GameLogic (globalState (world s'))) \<le> 1" by (simp add: sys_inv_def)
next
  assume login: "err msg = None" "readLoginMessage (content msg) = Inr login"
    "L_role login = ''game logic''"
    and lock: "LockGlobalStateMutex
           (w\<lparr>clients := (clients w)(c := (clients w c)\<lparr>nickname := L_nickname login\<rparr>)\<rparr>) = Some wl"
    and one: "1 \<le> length (GameLogic (globalState w))"
  note L = Lock_Some[OF lock]
  have hc: "handleClient c msg w = Some (loginGameLogic c wl)"
    using handleClient_role[OF login(1,2) lock] login(3) by simp
  have gs: "GameState (globalState wl) = GameState (globalState w)"
    "GameLogic (globalState wl) = GameLogic (globalState w)"
    using L by simp_all
  { assume "GameState (globalState w) = GAME_NOT_RUNNING"
    then show "handleClient c msg w =
               Some (NoHandler,
                     Kick c ''LOGIN denied: A game logic is already logged in''
                       (UnlockGlobalStateMutex wl))"
      using hc gs one by (simp add: loginGameLogic_def) }
  { assume "GameState (globalState w) \<noteq> GAME_NOT_RUNNING"
    then show "handleClient c msg w =
               Some (NoHandler,
                     Kick c ''LOGIN denied: Game has been started'' (UnlockGlobalStateMutex wl))"
      using hc gs by (simp add: loginGameLogic_def) }
  show "\<exists>w'. handleClient c msg w = Some (NoHandler, w')
                \<and> GameLogic (globalState w') = GameLogic (globalState w)
                \<and> state (clients w' c) = CLIENT_KICKED"
    using hc gs one by (simp add: loginGameLogic_def)
qed

theorem gameLogic_at_most_one_witness:
  "initial sys0
   \<and> (\<exists>s'. sys_run [Connection 0 (loginMsg ''gl'' ''game logic''),
                     Connection 1 (loginMsg ''gl2'' ''game logic'')] sys0 = Some s'
         \<and> map gl_client (GameLogic (globalState (world s'))) = [0]
         \<and> trace (world s') =
             [ALock, AWrite 0 MessageLoginAck, AUnlock,
              ALock, AUnlock,
              AWrite 1 (MessageKick ''LOGIN denied: A game logic is already logged in'')])"
proof -
  have i: "initial sys0" by (simp add: eval_defs)
  have "\<exists>s'. sys_run [Connection 0 (loginMsg ''gl'' ''game logic''),
                     Connection 1 (loginMsg ''gl2'' ''game logic'')] sys0 = Some s'
         \<and> map gl_client (GameLogic (globalState (world s'))) = [0]
         \<and> trace (world s') =
             [ALock, AWrite 0 MessageLoginAck, AUnlock,
              ALock, AUnlock,
              AWrite 1 (MessageKick ''LOGIN denied: A game logic is already logged in'')]"
    by (simp add: eval_defs)
  then obtain s' where r: "sys_run [Connection 0 (loginMsg ''gl'' ''game logic''),
                     Connection 1 (loginMsg ''gl2'' ''game logic'')] sys0 = Some s'"
    and g: "map gl_client (GameLogic (globalState (world s'))) = [0]"
    and t: "trace (world s') =
             [ALock, AWrite 0 MessageLoginAck, AUnlock,
              ALock, AUnlock,
              AWrite 1 (MessageKick ''LOGIN denied: A game logic is already logged in'')]"
    by (elim exE conjE)
  from gameLogic_at_most_one[of sys0 "[Connection 0 (loginMsg ''gl'' ''game logic''),
                     Connection 1 (loginMsg ''gl2'' ''game logic'')]" s', THEN conjunct1] i r
  have "length (GameLogic (globalState (world s'))) \<le> 1" by (rule mp[OF mp])
  with i r g t show ?thesis by (intro conjI exI[of _ s'])
qed

text \<open>
  C6 as stated fails on the reason: with a game logic registered and the game running, a
  second game logic is kicked with "LOGIN denied: Game has been started".
\<close>

theorem second_gameLogic_reason_counterexample:
  "map gl_client (GameLogic (globalState
      (world0\<lparr>globalState := config0\<lparr>GameState := GAME_RUNNING,
          GameLogic := [\<lparr>gl_client = 0, playerAction = chan_make, start = chan_make,
                         playerDisconnected = chan_nil\<rparr>]\<rparr>\<rparr>))) = [0]
   \<and> map_option (trace \<circ> snd) (handleClient 1 (loginMsg ''gl2'' ''game logic'')
      (world0\<lparr>globalState := config0\<lparr>GameState := GAME_RUNNING,
          GameLogic := [\<lparr>gl_client = 0, playerAction = chan_make, start = chan_make,
                         playerDisconnected = chan_nil\<rparr>]\<rparr>\<rparr>))
     = Some [ALock, AUnlock, AWrite 1 (MessageKick ''LOGIN denied: Game has been started'')]"
  by (simp add: eval_defs)



section \<open>The start of the game\<close>

lemma playerInformation_clients:
  "clients w1 = clients w \<Longrightarrow> playerInformation w1 = playerInformation w"
  by (rule ext) (simp add: playerInformation_def)

lemma playerInformation_playerInfo [simp]:
  "playerInformation w (p\<lparr>playerInfo := x\<rparr>) = playerInformation w p"
  by (simp add: playerInformation_def)

lemma startGame_result:
  assumes "startGame ids l w = Some (l', w')"
  shows "randPerm (length (Players (globalState w))) ids
    \<and> Players (globalState w') =
        map (\<lambda>p. p\<lparr>playerInfo := Some (playerInformation w p)\<rparr>)
          (assignPlayerIDs ids (Players (globalState w)))
    \<and> playersInfo l' =
        sort_key InfoPlayerID (map (playerInformation w) (assignPlayerIDs ids (Players (globalState w))))
    \<and> initialNbPlayers l' = int (length (Players (globalState w)))"
proof -
  from assms obtain w1 where lock: "LockGlobalStateMutex w = Some w1"
    unfolding startGame_def by (cases "LockGlobalStateMutex w") (simp_all add: Let_def)
  note L = Lock_Some[OF lock]
  have pi: "playerInformation w1 = playerInformation w"
    using L by (intro playerInformation_clients) simp
  have P: "Players (globalState w1) = Players (globalState w)" using L by simp
  have rp: "randPerm (length (Players (globalState w))) ids"
    using assms lock P unfolding startGame_def
    by (cases "randPerm (length (Players (globalState w))) ids") (simp_all add: Let_def)
  define players2 where "players2 =
     map (\<lambda>p. p\<lparr>playerInfo := Some (playerInformation w p)\<rparr>)
          (assignPlayerIDs ids (Players (globalState w)))"
  define w2 where "w2 = w1\<lparr>globalState := (globalState w1)\<lparr>Players := players2\<rparr>\<rparr>"
  define l1 where "l1 = l\<lparr>initialNbPlayers := int (length (Players (globalState w))),
     playersInfo := sort_key InfoPlayerID
        (map (playerInformation w) (assignPlayerIDs ids (Players (globalState w))))\<rparr>"
  obtain r w3 where sd: "sendDoInit (glClient l) (int (length (Players (globalState w2))))
                        (NbTurnsMax (globalState w2)) w2 = (r, w3)"
    by (cases "sendDoInit (glClient l) (int (length (Players (globalState w2))))
                        (NbTurnsMax (globalState w2)) w2") auto
  have g3: "globalState w3 = globalState w2"
    using sd sendMessage_eqD unfolding sendDoInit_def by blast
  have res: "(l', w') = (case r of
       Some e \<Rightarrow> failGameLogic (''Cannot send DO_INIT. '' @ e) l1 (UnlockGlobalStateMutex w3)
     | None \<Rightarrow> (l1\<lparr>pc := AwaitDoInitAck\<rparr>, UnlockGlobalStateMutex w3))"
    using assms lock rp P sd unfolding startGame_def w2_def players2_def l1_def
    by (simp add: Let_def pi split: option.splits)
  have "Players (globalState w') = players2 \<and> playersInfo l' = playersInfo l1
      \<and> initialNbPlayers l' = initialNbPlayers l1"
  proof (cases r)
    case None
    with res g3 show ?thesis by (simp add: w2_def)
  next
    case (Some e)
    with res have "failGameLogic (''Cannot send DO_INIT. '' @ e) l1 (UnlockGlobalStateMutex w3)
        = (l', w')" by simp
    from failGameLogic_eqD[OF this] g3 show ?thesis by (simp add: w2_def)
  qed
  then show ?thesis using rp by (simp add: players2_def l1_def)
qed

lemma assignPlayerIDs_props:
  assumes "length ids = length ps"
  shows "map playerID (assignPlayerIDs ids ps) = ids"
    and "map pv_client (assignPlayerIDs ids ps) = map pv_client ps"
    and "length (assignPlayerIDs ids ps) = length ps"
  using assms
  by (induction ps ids rule: list_induct2') (simp_all add: assignPlayerIDs_def)

lemma map_sort_key: "map f (sort_key f xs) = sort (map f xs)"
  by (rule properties_for_sort[symmetric]) simp_all

text \<open>
  C4. The start of the game (receiving from \<open>start\<close>): \<open>initialNbPlayers\<close> is the
  number of registered players; the players keep their order and clients and get the
  identifiers of the permutation, which are a permutation of \<open>[0, initialNbPlayers)\<close>;
  \<open>playersInfo\<close> has one record per player, with identifiers \<open>0, 1, \<dots>\<close> in ascending
  order. With the mutex free and a permutation of the right length the step is taken.
\<close>

theorem startGame_playerIDs:
  "(pc l = AwaitStart \<longrightarrow>
      handleGameLogic_step (EvStart playerIDs) (l, w) = Some (l', w') \<longrightarrow>
        initialNbPlayers l' = int (length (Players (globalState w)))
        \<and> length (Players (globalState w')) = length (Players (globalState w))
        \<and> map pv_client (Players (globalState w')) = map pv_client (Players (globalState w))
        \<and> map playerID (Players (globalState w')) = playerIDs
        \<and> mset (map playerID (Players (globalState w')))
            = mset (map int [0..<length (Players (globalState w))])
        \<and> length (playersInfo l') = length (Players (globalState w))
        \<and> map InfoPlayerID (playersInfo l') = map int [0..<length (Players (globalState w))]
        \<and> sorted (map InfoPlayerID (playersInfo l'))
        \<and> mset (playersInfo l') = mset (map (playerInformation w) (Players (globalState w')))
        \<and> map playerInfo (Players (globalState w'))
            = map (Some \<circ> playerInformation w) (Players (globalState w')))
   \<and> (pc l = AwaitStart \<longrightarrow> start (glClient l) = chan_make \<longrightarrow> \<not> Mutex (globalState w) \<longrightarrow>
        randPerm (length (Players (globalState w))) playerIDs \<longrightarrow>
        (\<exists>l' w'. handleGameLogic_step (EvStart playerIDs) (l, w) = Some (l', w')))"
proof (intro conjI impI)
  assume pc: "pc l = AwaitStart"
    and st: "handleGameLogic_step (EvStart playerIDs) (l, w) = Some (l', w')"
  then have sg: "startGame playerIDs l w = Some (l', w')"
    by (simp add: handleGameLogic_step_def stepAwaitStart_def split: if_splits)
  let ?ps = "Players (globalState w)"
  let ?n = "length ?ps"
  let ?as = "assignPlayerIDs playerIDs ?ps"
  from startGame_result[OF sg] have rp: "randPerm ?n playerIDs"
    and P: "Players (globalState w') = map (\<lambda>p. p\<lparr>playerInfo := Some (playerInformation w p)\<rparr>) ?as"
    and I: "playersInfo l' = sort_key InfoPlayerID (map (playerInformation w) ?as)"
    and N: "initialNbPlayers l' = int ?n" by simp_all
  have len: "length playerIDs = ?n" using rp by (rule randPerm_length)
  note A = assignPlayerIDs_props[OF len]
  have srt: "sort playerIDs = map int [0..<?n]" using rp by (simp add: randPerm_def)
  have ids: "map InfoPlayerID (map (playerInformation w) ?as) = playerIDs"
    using A(1) by (simp add: playerInformation_def comp_def)
  show "initialNbPlayers l' = int ?n" by (rule N)
  show "length (Players (globalState w')) = ?n" using P A(3) by simp
  show "map pv_client (Players (globalState w')) = map pv_client ?ps"
    using A(2) by (simp add: P comp_def)
  show pid: "map playerID (Players (globalState w')) = playerIDs"
    using A(1) by (simp add: P comp_def)
  show "mset (map playerID (Players (globalState w'))) = mset (map int [0..<?n])"
    unfolding pid using srt by (metis mset_sort)
  show "length (playersInfo l') = ?n" using A(3) by (simp add: I)
  show m: "map InfoPlayerID (playersInfo l') = map int [0..<?n]"
    unfolding I map_sort_key ids by (rule srt)
  show "sorted (map InfoPlayerID (playersInfo l'))"
    unfolding I by (rule sorted_sort_key)
  show "mset (playersInfo l') = mset (map (playerInformation w) (Players (globalState w')))"
    by (simp add: I P comp_def)
  show "map playerInfo (Players (globalState w'))
            = map (Some \<circ> playerInformation w) (Players (globalState w'))"
    by (simp add: P comp_def)
next
  assume "pc l = AwaitStart" "start (glClient l) = chan_make" "\<not> Mutex (globalState w)"
    "randPerm (length (Players (globalState w))) playerIDs"
  then show "\<exists>l' w'. handleGameLogic_step (EvStart playerIDs) (l, w) = Some (l', w')"
    by (auto simp add: handleGameLogic_step_def stepAwaitStart_def startGame_def
          LockGlobalStateMutex_def Let_def emit_def split: prod.splits option.splits)
qed

theorem startGame_playerIDs_witness:
  "pc (handleGameLogic_entry glc0) = AwaitStart
   \<and> (\<exists>l' w'. handleGameLogic_step (EvStart [1, 0]) (handleGameLogic_entry glc0, world2)
                  = Some (l', w')
         \<and> initialNbPlayers l' = 2
         \<and> map playerID (Players (globalState w')) = [1, 0]
         \<and> map InfoPlayerID (playersInfo l') = [0, 1])"
proof -
  have p: "pc (handleGameLogic_entry glc0) = AwaitStart"
    by (simp add: handleGameLogic_entry_def)
  have "\<exists>l' w'. handleGameLogic_step (EvStart [1, 0]) (handleGameLogic_entry glc0, world2)
                  = Some (l', w')"
    by (simp add: eval_defs step_defs)
  then obtain l' w' where
    s: "handleGameLogic_step (EvStart [1, 0]) (handleGameLogic_entry glc0, world2) = Some (l', w')"
    by (elim exE)
  have n: "length (Players (globalState world2)) = 2"
    by (simp add: world2_def world0_def config0_def)
  have u: "map int [0..<2] = [0, 1]" by code_simp
  from startGame_playerIDs[of "handleGameLogic_entry glc0" "[1, 0]" world2 l' w'] p s n
  have "initialNbPlayers l' = 2 \<and> map playerID (Players (globalState w')) = [1, 0]
         \<and> map InfoPlayerID (playersInfo l') = [0, 1]"
    by (simp add: u)
  with p s show ?thesis by (intro conjI exI[of _ l'] exI[of _ w']) simp_all
qed

lemma Kick_trace:
  "\<exists>ks. trace (Kick c r w) = trace w @ ks \<and> set ks \<subseteq> {AWrite c (MessageKick r)}"
  by (cases "writeErrs (clients w c)")
     (auto simp add: Kick_def sendMessage_def Let_def)

lemma Finition_steps:
  assumes "pc l = Finition" "handleGameLogic_step ev (l, w) = Some (l2, w2)"
  shows "w2 = w \<and> (pc l2 = Finition \<or> pc l2 = Returned)"
proof (cases "ev = EvTimerSend")
  case True
  with assms show ?thesis by (auto simp add: handleGameLogic_step_def split: if_splits)
next
  case False
  with assms have "waitGameLogicFinition ev l w = Some (l2, w2)"
    by (simp add: handleGameLogic_step_def)
  with assms(1) show ?thesis
    by (cases ev) (auto simp add: waitGameLogicFinition_def split: if_splits)
qed

text \<open>
  C8. While the coordinator waits for DO\_INIT\_ACK, the only timer that can fire is the
  one of 3 seconds. When it fires, when the read fails, or when the message is not a
  valid DO\_INIT\_ACK, the game logic client is kicked (on timeout with "Did not receive
  DO\_INIT\_ACK after 3 seconds."), 1 is sent on the exit channel and the coordinator
  enters \<open>waitGameLogicFinition\<close>: nothing but the KICK and the exit code is emitted, no
  GAME\_STARTS, and from then on no event changes the world until \<open>canTerminate\<close>.
\<close>

theorem doInitAck_failure:
  "pc l = AwaitDoInitAck \<longrightarrow>
     handleGameLogic_step (EvTimeAfter d) (l, w) =
       (if d = 3 * Second
        then Some (failGameLogic ''Did not receive DO_INIT_ACK after 3 seconds.'' l w)
        else None)
     \<and> (\<forall>e. err msg = Some e \<longrightarrow>
           handleGameLogic_step (EvIncoming msg) (l, w) =
             Some (failGameLogic (''Cannot read DO_INIT_ACK. '' @ e) l w))
     \<and> (\<forall>e. err msg = None \<longrightarrow> readDoInitAckMessage (content msg) = Inl e \<longrightarrow>
           handleGameLogic_step (EvIncoming msg) (l, w) =
             Some (failGameLogic (''Invalid DO_INIT_ACK message. '' @ e) l w))
     \<and> (\<forall>reason l' w'. failGameLogic reason l w = (l', w') \<longrightarrow>
           pc l' = Finition
           \<and> state (clients w' (gl_client (glClient l))) = CLIENT_KICKED
           \<and> w' = emit [AExit 1] (Kick (gl_client (glClient l)) reason w)
           \<and> globalState w' = globalState w
           \<and> (\<exists>ks. trace w' = trace w @ ks @ [AExit 1]
                 \<and> set ks \<subseteq> {AWrite (gl_client (glClient l)) (MessageKick reason)})
           \<and> handleGameLogic_step EvCanTerminate (l', w') = Some (l'\<lparr>pc := Returned\<rparr>, w')
           \<and> (\<forall>ev l2 w2. handleGameLogic_step ev (l', w') = Some (l2, w2) \<longrightarrow>
                 w2 = w' \<and> (pc l2 = Finition \<or> pc l2 = Returned)))"
proof (intro impI conjI allI)
  assume pc: "pc l = AwaitDoInitAck"
  show "handleGameLogic_step (EvTimeAfter d) (l, w) =
       (if d = 3 * Second
        then Some (failGameLogic ''Did not receive DO_INIT_ACK after 3 seconds.'' l w)
        else None)"
    using pc by (simp add: handleGameLogic_step_def stepAwaitDoInitAck_def)
  { fix e assume "err msg = Some e"
    then show "handleGameLogic_step (EvIncoming msg) (l, w) =
             Some (failGameLogic (''Cannot read DO_INIT_ACK. '' @ e) l w)"
      using pc by (simp add: handleGameLogic_step_def stepAwaitDoInitAck_def) }
  { fix e assume "err msg = None" "readDoInitAckMessage (content msg) = Inl e"
    then show "handleGameLogic_step (EvIncoming msg) (l, w) =
             Some (failGameLogic (''Invalid DO_INIT_ACK message. '' @ e) l w)"
      using pc by (simp add: handleGameLogic_step_def stepAwaitDoInitAck_def) }
  fix reason l' w'
  assume f: "failGameLogic reason l w = (l', w')"
  then have l': "l' = l\<lparr>pc := Finition\<rparr>"
    and w': "w' = emit [AExit 1] (Kick (gl_client (glClient l)) reason w)"
    by (simp_all add: failGameLogic_def)
  show "pc l' = Finition" by (simp add: l')
  show "state (clients w' (gl_client (glClient l))) = CLIENT_KICKED" by (simp add: w')
  show "w' = emit [AExit 1] (Kick (gl_client (glClient l)) reason w)" by (rule w')
  show "globalState w' = globalState w" by (simp add: w')
  show "\<exists>ks. trace w' = trace w @ ks @ [AExit 1]
                 \<and> set ks \<subseteq> {AWrite (gl_client (glClient l)) (MessageKick reason)}"
    using Kick_trace[of "gl_client (glClient l)" reason w] by (auto simp add: w')
  show "handleGameLogic_step EvCanTerminate (l', w') = Some (l'\<lparr>pc := Returned\<rparr>, w')"
    by (simp add: l' handleGameLogic_step_def waitGameLogicFinition_def)
  fix ev l2 w2
  assume "handleGameLogic_step ev (l', w') = Some (l2, w2)"
  from Finition_steps[OF _ this] show "w2 = w'" "pc l2 = Finition \<or> pc l2 = Returned"
    by (simp_all add: l')
qed

theorem doInitAck_failure_witness:
  "pc ((handleGameLogic_entry glc0)\<lparr>pc := AwaitDoInitAck\<rparr>) = AwaitDoInitAck
   \<and> map_option (trace \<circ> snd)
        (handleGameLogic_step (EvTimeAfter 3000000000)
           ((handleGameLogic_entry glc0)\<lparr>pc := AwaitDoInitAck\<rparr>, world2))
       = Some [AWrite 0 (MessageKick ''Did not receive DO_INIT_ACK after 3 seconds.''), AExit 1]
   \<and> map_option (pc \<circ> fst)
        (handleGameLogic_step (EvTimeAfter 3000000000)
           ((handleGameLogic_entry glc0)\<lparr>pc := AwaitDoInitAck\<rparr>, world2))
       = Some Finition"
  using doInitAck_failure[of "(handleGameLogic_entry glc0)\<lparr>pc := AwaitDoInitAck\<rparr>"
          3000000000 world2 "\<lparr>content = ContentOther [], err = None\<rparr>"]
  by (simp add: eval_defs failGameLogic_def Second_def glc0_def world2_def)



section \<open>The messages of a whole game\<close>


lemma emit_emit [simp]: "emit Y (emit X w) = emit (X @ Y) w"
  by (simp add: emit_def)

lemma emit_Nil [simp]: "emit [] w = w"
  by (simp add: emit_def)

lemma ready_emit [simp]: "ready c (emit X w) = ready c w"
  by (simp add: ready_def)










lemma err_doTurnAck [simp]: "err (doTurnAckMsg win st) = None"
  by (simp add: doTurnAckMsg_def)



lemma playerInformation_upd [simp]:
  "playerInformation (w\<lparr>globalState := g\<rparr>) = playerInformation w"
  "playerInformation (w\<lparr>trace := tr\<rparr>) = playerInformation w"
  by (rule ext, simp add: playerInformation_def)+







lemma collectActions_simps [simp]:
  "collectActions pas [] = pas"
  "collectActions pas (a # as) = collectActions (collectAction a pas) as"
  by (simp_all add: collectActions_def)





lemma writesTo_append [simp]: "writesTo c (xs @ ys) = writesTo c xs @ writesTo c ys"
  by (induction c xs rule: writesTo.induct) simp_all

lemma exits_append [simp]: "exits (xs @ ys) = exits xs @ exits ys"
  by (induction xs rule: exits.induct) simp_all

lemma fanOut_append [simp]: "fanOut (xs @ ys) = fanOut xs @ fanOut ys"
  by (induction xs rule: fanOut.induct) simp_all

lemma obs_turnFor [simp]:
  "writesTo c (map (turnFor n a i) ps) = []"
  "exits (map (turnFor n a i) ps) = []"
  "fanOut (map (turnFor n a i) ps) = map (turnFor n a i) ps"
  by (induction ps) (simp_all add: turnFor_def)

lemma obs_gameStartsFor [simp]:
  "writesTo c (map (gameStartsFor gs l a i) ps) = []"
  "exits (map (gameStartsFor gs l a i) ps) = []"
  "fanOut (map (gameStartsFor gs l a i) ps) = map (gameStartsFor gs l a i) ps"
  by (induction ps) (simp_all add: gameStartsFor_def)

lemma obs_gameEndsFor [simp]:
  "writesTo c (map (gameEndsFor a) ps) = []"
  "exits (map (gameEndsFor a) ps) = []"
  "fanOut (map (gameEndsFor a) ps) = map (gameEndsFor a) ps"
  by (induction ps) (simp_all add: gameEndsFor_def)

lemma obs_turnsOf [simp]:
  "writesTo c (turnsOf gs l kr) = []"
  "exits (turnsOf gs l kr) = []"
  "fanOut (turnsOf gs l kr) = turnsOf gs l kr"
  by (simp_all add: turnsOf_def)







end
